theory Spec2Isabelle
  imports Main
begin

section \<open>Go values used by the workout handlers\<close>

text \<open>
  Go \<open>error\<close> values. The handlers compare store errors with \<open>sql.ErrNoRows\<close>, once with
  \<open>errors.Is\<close> (which follows \<open>%w\<close> wrapping) and once with \<open>==\<close> (which does not), so a
  wrapped error is a value of its own. \<open>ErrOther\<close> is any other error, with its message.
\<close>

datatype error = ErrNoRows | ErrWrap string error | ErrOther string

fun errors_Is :: "error \<Rightarrow> error \<Rightarrow> bool" where
  "errors_Is (ErrWrap m e) target = (ErrWrap m e = target \<or> errors_Is e target)"
| "errors_Is e target = (e = target)"

text \<open>
  Modelled from the spec: the declarations of \<open>store.WorkoutEntry\<close>, \<open>store.Workout\<close> and
  \<open>store.User\<close> (package \<open>store\<close>) are missing from the sources. The fields are the ones the
  handlers read and write (\<open>ID\<close>, \<open>UserID\<close>, \<open>Title\<close>, \<open>Description\<close>, \<open>DurationMinutes\<close>,
  \<open>CaloriesBurned\<close>, \<open>Entries\<close>) and the ones section 3 of the spec lists. Go's \<open>int\<close> and
  \<open>int64\<close> are both modelled as \<open>int\<close>: the handlers do no arithmetic on them, and the
  conversion \<open>int(workoutID)\<close> is the identity on a 64-bit platform.
\<close>

record WorkoutEntry =
  Entry_ID :: int
  WorkoutID :: int
  ExerciseName :: string
  Sets :: int
  Reps :: int
  Weight :: int
  Notes :: string

record Workout =
  ID :: int
  UserID :: int
  Title :: string
  Description :: string
  DurationMinutes :: int
  CaloriesBurned :: int
  Entries :: "WorkoutEntry list"

record User =
  User_ID :: int
  Username :: string
  Email :: string
  PasswordHash :: string
  Bio :: string

text \<open>
  A \<open>*store.User\<close> as the handlers see it: the nil pointer, the sentinel
  \<open>store.AnonymousUser\<close> (compared by reference), or a pointer to some other user.
\<close>

datatype UserPtr = NilUser | AnonymousUser | UserRef (deref: User)

section \<open>The HTTP response writer\<close>

text \<open>
  \<open>utils.Envelope\<close> is a \<open>map[string]interface{}\<close>; the handlers put a message or a workout
  pointer under one key. A body chunk is what one \<open>w.Write\<close> call sends: the indented JSON
  of an envelope followed by a newline, or a line of plain text (\<open>http.Error\<close>).
\<close>

datatype jvalue = JString string | JWorkout "Workout option"

type_synonym Envelope = "(string \<times> jvalue) list"

datatype chunk = JsonBody Envelope | TextBody string

text \<open>
  \<open>net/http\<close>'s response writer: the status line is committed by the first \<open>WriteHeader\<close>
  (a later call is superfluous and ignored), a \<open>Write\<close> before any \<open>WriteHeader\<close> commits
  200, and every \<open>Write\<close> appends to the body. Header fields are not modelled.
\<close>

record ResponseWriter =
  status :: "nat option"
  body :: "chunk list"

definition NewResponseWriter :: ResponseWriter where
  "NewResponseWriter = \<lparr>status = None, body = []\<rparr>"

abbreviation StatusOK :: nat where "StatusOK \<equiv> 200"
abbreviation StatusCreated :: nat where "StatusCreated \<equiv> 201"
abbreviation StatusNoContent :: nat where "StatusNoContent \<equiv> 204"
abbreviation StatusBadRequest :: nat where "StatusBadRequest \<equiv> 400"
abbreviation StatusUnauthorized :: nat where "StatusUnauthorized \<equiv> 401"
abbreviation StatusForbidden :: nat where "StatusForbidden \<equiv> 403"
abbreviation StatusNotFound :: nat where "StatusNotFound \<equiv> 404"
abbreviation StatusInternalServerError :: nat where "StatusInternalServerError \<equiv> 500"

definition WriteHeader :: "nat \<Rightarrow> ResponseWriter \<Rightarrow> ResponseWriter" where
  "WriteHeader code w = (if status w = None then w\<lparr>status := Some code\<rparr> else w)"

definition Write :: "chunk \<Rightarrow> ResponseWriter \<Rightarrow> ResponseWriter" where
  "Write b w = (let w' = WriteHeader StatusOK w in w'\<lparr>body := body w' @ [b]\<rparr>)"

text \<open>
  \<open>utils.WriteJson\<close> (utils.go, lines 16-29). \<open>json.MarshalIndent\<close> does not fail on the
  envelopes the handlers build (strings and store structs), so the early \<open>return err\<close> is
  not a branch of the model; the handlers ignore the returned error anyway.
\<close>

definition WriteJson :: "nat \<Rightarrow> Envelope \<Rightarrow> ResponseWriter \<Rightarrow> ResponseWriter" where
  "WriteJson st data w = Write (JsonBody data) (WriteHeader st w)"

text \<open>\<open>http.Error\<close> and \<open>http.NotFound\<close> of the standard library.\<close>

definition http_Error :: "string \<Rightarrow> nat \<Rightarrow> ResponseWriter \<Rightarrow> ResponseWriter" where
  "http_Error msg code w = Write (TextBody msg) (WriteHeader code w)"

definition http_NotFound :: "ResponseWriter \<Rightarrow> ResponseWriter" where
  "http_NotFound w = http_Error ''404 page not found'' StatusNotFound w"

section \<open>Reading the id parameter\<close>

text \<open>
  \<open>strconv.ParseInt(s, 10, 64)\<close> of the standard library: an optional sign, then one or more
  decimal digits; \<open>ParseUint\<close> reads the digits left to right into a 64-bit unsigned value
  and stops at the first byte that is not a digit (syntax error) or at the first overflow
  (range error); the signed result must lie in \<open>-2^63 .. 2^63 - 1\<close>.
\<close>

definition ErrSyntax :: error where "ErrSyntax = ErrOther ''invalid syntax''"
definition ErrRange :: error where "ErrRange = ErrOther ''value out of range''"

fun ParseUint_loop :: "int \<Rightarrow> string \<Rightarrow> error + int" where
  "ParseUint_loop n [] = Inr n"
| "ParseUint_loop n (c # cs) =
     (let b = (of_char c :: int) in
      if b < 48 \<or> 57 < b then Inl ErrSyntax
      else if n \<ge> (2 ^ 64 - 1) div 10 + 1 then Inl ErrRange
      else if n * 10 + (b - 48) > 2 ^ 64 - 1 then Inl ErrRange
      else ParseUint_loop (n * 10 + (b - 48)) cs)"

definition ParseUint :: "string \<Rightarrow> error + int" where
  "ParseUint s = (if s = [] then Inl ErrSyntax else ParseUint_loop 0 s)"

definition ParseInt :: "string \<Rightarrow> error + int" where
  "ParseInt s =
     (if s = [] then Inl ErrSyntax
      else let neg = (hd s = CHR ''-'');
               s1 = (if hd s = CHR ''+'' \<or> hd s = CHR ''-'' then tl s else s)
           in case ParseUint s1 of
                Inl e \<Rightarrow> Inl e
              | Inr un \<Rightarrow>
                  if \<not> neg \<and> un \<ge> 2 ^ 63 then Inl ErrRange
                  else if neg \<and> un > 2 ^ 63 then Inl ErrRange
                  else Inr (if neg then - un else un))"

text \<open>
  A request as the handlers read it: \<open>URLParam_id\<close> is \<open>chi.URLParam(req, "id")\<close> (the empty
  string when the route has no such parameter), \<open>GetUser\<close> is what \<open>middleware.GetUser(req)\<close>
  returns (package \<open>middleware\<close> is missing from the sources, so its result is part of the
  input), and \<open>Body\<close> is the outcome of \<open>json.NewDecoder(req.Body).Decode(&v)\<close> into the
  handler's target \<open>v\<close>: the decoding error, or the decoded value.
\<close>

record 'b Request =
  URLParam_id :: string
  GetUser :: UserPtr
  Body :: "error + 'b"

text \<open>\<open>utils.ReadIDParam\<close> (utils.go, lines 32-45).\<close>

definition ReadIDParam :: "'b Request \<Rightarrow> error + int" where
  "ReadIDParam r =
     (let idParam = URLParam_id r in
      if idParam = [] then Inl (ErrOther ''Invalid id parameter'')
      else case ParseInt idParam of
             Inl err \<Rightarrow> Inl (ErrOther ''Invalid id parameter type'')
           | Inr i \<Rightarrow> Inr i)"

section \<open>The store interface and the handler's world\<close>

text \<open>
  \<open>store.WorkoutStore\<close> is an interface; the handlers work with any implementation. A
  method takes the store's state and returns its result with the new state. A result
  \<open>(*Workout, error)\<close> is \<open>Inl err\<close> when the error is not nil (the handlers then ignore
  the pointer) and \<open>Inr p\<close> otherwise, where \<open>p\<close> may be the nil pointer \<open>None\<close>.
  \<open>UpdateWorkout\<close> receives a pointer, so it also returns the pointee as it leaves it.
  The pointer that \<open>GetWorkoutByID\<close> returns refers to a struct of its own, as a store
  backed by a database builds it from the row it read: the handler's assignments to its
  fields do not reach the store's state.
\<close>

record 's WorkoutStore =
  CreateWorkout :: "Workout \<Rightarrow> 's \<Rightarrow> (error + Workout option) \<times> 's"
  GetWorkoutByID :: "int \<Rightarrow> 's \<Rightarrow> (error + Workout option) \<times> 's"
  UpdateWorkout :: "Workout \<Rightarrow> 's \<Rightarrow> (error option \<times> Workout) \<times> 's"
  DeleteWorkout :: "int \<Rightarrow> 's \<Rightarrow> error option \<times> 's"
  GetWorkoutOwner :: "int \<Rightarrow> 's \<Rightarrow> (error + int) \<times> 's"

datatype StoreCall =
    CallCreateWorkout Workout
  | CallGetWorkoutByID int
  | CallUpdateWorkout Workout
  | CallDeleteWorkout int
  | CallGetWorkoutOwner int

fun is_mutation :: "StoreCall \<Rightarrow> bool" where
  "is_mutation (CallCreateWorkout _) = True"
| "is_mutation (CallUpdateWorkout _) = True"
| "is_mutation (CallDeleteWorkout _) = True"
| "is_mutation _ = False"

text \<open>
  What a handler run changes: the store's state, the response writer and the logger's
  output. \<open>calls\<close> records every store method the handler invokes, in order.
\<close>

record 's World =
  db :: 's
  calls :: "StoreCall list"
  logs :: "(string \<times> error) list"
  w :: ResponseWriter

definition NewWorld :: "'s \<Rightarrow> 's World" where
  "NewWorld s = \<lparr>db = s, calls = [], logs = [], w = NewResponseWriter\<rparr>"

definition logger_Printf :: "string \<Rightarrow> error \<Rightarrow> 's World \<Rightarrow> 's World" where
  "logger_Printf fmt err \<sigma> = \<sigma>\<lparr>logs := logs \<sigma> @ [(fmt, err)]\<rparr>"

definition respond :: "(ResponseWriter \<Rightarrow> ResponseWriter) \<Rightarrow> 's World \<Rightarrow> 's World" where
  "respond f \<sigma> = \<sigma>\<lparr>w := f (w \<sigma>)\<rparr>"

definition call_CreateWorkout ::
  "'s WorkoutStore \<Rightarrow> Workout \<Rightarrow> 's World \<Rightarrow> (error + Workout option) \<times> 's World" where
  "call_CreateWorkout wh wk \<sigma> =
     (let (r, d) = CreateWorkout wh wk (db \<sigma>)
      in (r, \<sigma>\<lparr>db := d, calls := calls \<sigma> @ [CallCreateWorkout wk]\<rparr>))"

definition call_GetWorkoutByID ::
  "'s WorkoutStore \<Rightarrow> int \<Rightarrow> 's World \<Rightarrow> (error + Workout option) \<times> 's World" where
  "call_GetWorkoutByID wh i \<sigma> =
     (let (r, d) = GetWorkoutByID wh i (db \<sigma>)
      in (r, \<sigma>\<lparr>db := d, calls := calls \<sigma> @ [CallGetWorkoutByID i]\<rparr>))"

definition call_UpdateWorkout ::
  "'s WorkoutStore \<Rightarrow> Workout \<Rightarrow> 's World \<Rightarrow> (error option \<times> Workout) \<times> 's World" where
  "call_UpdateWorkout wh wk \<sigma> =
     (let (r, d) = UpdateWorkout wh wk (db \<sigma>)
      in (r, \<sigma>\<lparr>db := d, calls := calls \<sigma> @ [CallUpdateWorkout wk]\<rparr>))"

definition call_DeleteWorkout ::
  "'s WorkoutStore \<Rightarrow> int \<Rightarrow> 's World \<Rightarrow> error option \<times> 's World" where
  "call_DeleteWorkout wh i \<sigma> =
     (let (r, d) = DeleteWorkout wh i (db \<sigma>)
      in (r, \<sigma>\<lparr>db := d, calls := calls \<sigma> @ [CallDeleteWorkout i]\<rparr>))"

definition call_GetWorkoutOwner ::
  "'s WorkoutStore \<Rightarrow> int \<Rightarrow> 's World \<Rightarrow> (error + int) \<times> 's World" where
  "call_GetWorkoutOwner wh i \<sigma> =
     (let (r, d) = GetWorkoutOwner wh i (db \<sigma>)
      in (r, \<sigma>\<lparr>db := d, calls := calls \<sigma> @ [CallGetWorkoutOwner i]\<rparr>))"

section \<open>The handlers (workout_handler.go)\<close>

text \<open>\<open>HandleWorkoutByID\<close>, lines 32-51.\<close>

definition HandleWorkoutByID :: "'s WorkoutStore \<Rightarrow> 'b Request \<Rightarrow> 's World \<Rightarrow> 's World" where
  "HandleWorkoutByID wh req \<sigma> =
     (case ReadIDParam req of
        Inl err \<Rightarrow>
          respond (WriteJson StatusBadRequest [(''error'', JString ''Invalid workout id'')])
            (logger_Printf ''Error : readIdParam : %v '' err \<sigma>)
      | Inr workoutID \<Rightarrow>
          (case call_GetWorkoutByID wh workoutID \<sigma> of
             (Inl err, \<sigma>1) \<Rightarrow>
               respond (WriteJson StatusInternalServerError
                          [(''error'', JString ''Internal Server Error'')])
                 (logger_Printf ''Error : getWorkoutByID : %v '' err \<sigma>1)
           | (Inr workout, \<sigma>1) \<Rightarrow>
               respond (WriteJson StatusOK [(''workout'', JWorkout workout)]) \<sigma>1))"

text \<open>\<open>HandleCreateWorkout\<close>, lines 55-83.\<close>

definition HandleCreateWorkout ::
  "'s WorkoutStore \<Rightarrow> Workout Request \<Rightarrow> 's World \<Rightarrow> 's World" where
  "HandleCreateWorkout wh req \<sigma> =
     (case Body req of
        Inl err \<Rightarrow>
          respond (WriteJson StatusBadRequest [(''error'', JString ''Invalid request sent'')])
            (logger_Printf ''Error : decodingCreateWorkout : %v '' err \<sigma>)
      | Inr workout \<Rightarrow>
          (let currentUser = GetUser req in
           if currentUser = NilUser \<or> currentUser = AnonymousUser then
             respond (WriteJson StatusBadRequest [(''error'', JString ''you must be logged in'')]) \<sigma>
           else
             (case call_CreateWorkout wh (workout\<lparr>UserID := User_ID (deref currentUser)\<rparr>) \<sigma> of
                (Inl err, \<sigma>1) \<Rightarrow>
                  respond (WriteJson StatusInternalServerError
                             [(''error'', JString ''failed to create workout'')])
                    (logger_Printf ''Error : createWorkout : %v '' err \<sigma>1)
              | (Inr createWorkout, \<sigma>1) \<Rightarrow>
                  respond (WriteJson StatusCreated [(''workout'', JWorkout createWorkout)]) \<sigma>1)))"

text \<open>
  The anonymous struct \<open>updateWorkoutRequest\<close> (lines 108-114): a nil pointer or nil slice
  is \<open>None\<close>. \<open>encoding/json\<close> leaves a field nil when its key is absent from the body (or
  is \<open>null\<close>) and decodes the empty array \<open>[]\<close> to an empty slice that is not nil.
\<close>

record updateWorkoutRequest =
  upd_Title :: "string option"
  upd_Description :: "string option"
  upd_DurationMinutes :: "int option"
  upd_CaloriesBurned :: "int option"
  upd_Entries :: "WorkoutEntry list option"

text \<open>Lines 125-140: the fields that are not nil overwrite the fetched workout.\<close>

definition applyUpdateRequest :: "updateWorkoutRequest \<Rightarrow> Workout \<Rightarrow> Workout" where
  "applyUpdateRequest r existingWorkout =
     (let e1 = (case upd_Title r of None \<Rightarrow> existingWorkout
                | Some t \<Rightarrow> existingWorkout\<lparr>Title := t\<rparr>);
          e2 = (case upd_Description r of None \<Rightarrow> e1 | Some d \<Rightarrow> e1\<lparr>Description := d\<rparr>);
          e3 = (case upd_DurationMinutes r of None \<Rightarrow> e2 | Some m \<Rightarrow> e2\<lparr>DurationMinutes := m\<rparr>);
          e4 = (case upd_CaloriesBurned r of None \<Rightarrow> e3 | Some c \<Rightarrow> e3\<lparr>CaloriesBurned := c\<rparr>)
      in (case upd_Entries r of None \<Rightarrow> e4 | Some es \<Rightarrow> e4\<lparr>Entries := es\<rparr>))"

text \<open>
  \<open>HandleUpdateWorkoutByID\<close>, lines 86-178, in two parts. The branch for a failed
  \<open>ReadIDParam\<close> (lines 89-93) writes its response and does not return: the handler
  goes on with the \<open>workoutID\<close> that \<open>ReadIDParam\<close> returned beside the error, which
  is 0.
\<close>

definition readUpdateID :: "'b Request \<Rightarrow> 's World \<Rightarrow> int \<times> 's World" where
  "readUpdateID req \<sigma> =
     (case ReadIDParam req of
        Inl err \<Rightarrow>
          (0, respond (WriteJson StatusBadRequest
                         [(''error'', JString ''Invalid workout update id'')])
                (logger_Printf ''Error : readIdParam : %v '' err \<sigma>))
      | Inr i \<Rightarrow> (i, \<sigma>))"

text \<open>Lines 94-178, from the fetch of the existing workout to the end.\<close>

definition updateFrom ::
  "'s WorkoutStore \<Rightarrow> updateWorkoutRequest Request \<Rightarrow> int \<Rightarrow> 's World \<Rightarrow> 's World" where
  "updateFrom wh req workoutID \<sigma>1 =
     (case call_GetWorkoutByID wh workoutID \<sigma>1 of
        (Inl err, \<sigma>2) \<Rightarrow>
          respond (WriteJson StatusInternalServerError
                     [(''error'', JString ''Internal server error'')])
            (logger_Printf ''Error : getWorkoutByID : %v '' err \<sigma>2)
      | (Inr None, \<sigma>2) \<Rightarrow> respond http_NotFound \<sigma>2
      | (Inr (Some fetched), \<sigma>2) \<Rightarrow>
          (case Body req of
             Inl err \<Rightarrow>
               respond (WriteJson StatusBadRequest
                          [(''error'', JString ''Invalid request payload'')])
                 (logger_Printf ''Error : decodingUpdateRequest : %v '' err \<sigma>2)
           | Inr updateRequest \<Rightarrow>
               (let existingWorkout = applyUpdateRequest updateRequest fetched;
                    currentUser = GetUser req in
                if currentUser = NilUser \<or> currentUser = AnonymousUser then
                  respond (WriteJson StatusBadRequest
                             [(''error'', JString ''you must be logged in to update'')]) \<sigma>2
                else
                  (case call_GetWorkoutOwner wh workoutID \<sigma>2 of
                     (Inl err, \<sigma>3) \<Rightarrow>
                       if errors_Is err ErrNoRows then
                         respond (WriteJson StatusBadRequest
                                    [(''error'', JString ''workout does not exists'')]) \<sigma>3
                       else
                         respond (WriteJson StatusInternalServerError
                                    [(''error'', JString ''internal server error'')]) \<sigma>3
                   | (Inr workoutOwner, \<sigma>3) \<Rightarrow>
                       if workoutOwner \<noteq> User_ID (deref currentUser) then
                         respond (WriteJson StatusForbidden
                                    [(''error'',
                                      JString ''you are not authorized to update this workout'')])
                           \<sigma>3
                       else
                         (case call_UpdateWorkout wh (existingWorkout\<lparr>ID := workoutID\<rparr>) \<sigma>3 of
                            ((Some err, updated), \<sigma>4) \<Rightarrow>
                              respond (WriteJson StatusInternalServerError
                                         [(''error'', JString ''Internal server error'')])
                                (logger_Printf ''Error : updateWorkout : %v '' err \<sigma>4)
                          | ((None, updated), \<sigma>4) \<Rightarrow>
                              respond (WriteJson StatusOK
                                         [(''workout'', JWorkout (Some updated))]) \<sigma>4)))))"

definition HandleUpdateWorkoutByID ::
  "'s WorkoutStore \<Rightarrow> updateWorkoutRequest Request \<Rightarrow> 's World \<Rightarrow> 's World" where
  "HandleUpdateWorkoutByID wh req \<sigma> =
     (let (workoutID, \<sigma>1) = readUpdateID req \<sigma> in updateFrom wh req workoutID \<sigma>1)"

text \<open>\<open>HandleDeleteWorkoutByID\<close>, lines 180-232.\<close>

definition HandleDeleteWorkoutByID ::
  "'s WorkoutStore \<Rightarrow> 'b Request \<Rightarrow> 's World \<Rightarrow> 's World" where
  "HandleDeleteWorkoutByID wh req \<sigma> =
     (let paramsWorkoutID = URLParam_id req in
      if paramsWorkoutID = [] then respond http_NotFound \<sigma>
      else
        (case ParseInt paramsWorkoutID of
           Inl err \<Rightarrow> respond http_NotFound \<sigma>
         | Inr workoutID \<Rightarrow>
             (let currentUser = GetUser req in
              if currentUser = NilUser \<or> currentUser = AnonymousUser then
                respond (WriteJson StatusBadRequest
                           [(''error'', JString ''you must be logged in to update'')]) \<sigma>
              else
                (case call_GetWorkoutOwner wh workoutID \<sigma> of
                   (Inl err, \<sigma>1) \<Rightarrow>
                     if errors_Is err ErrNoRows then
                       respond (WriteJson StatusBadRequest
                                  [(''error'', JString ''workout does not exists'')]) \<sigma>1
                     else
                       respond (WriteJson StatusInternalServerError
                                  [(''error'', JString ''internal server error'')]) \<sigma>1
                 | (Inr workoutOwner, \<sigma>1) \<Rightarrow>
                     if workoutOwner \<noteq> User_ID (deref currentUser) then
                       respond (WriteJson StatusForbidden
                                  [(''error'',
                                    JString ''you are not authorized to delete this workout'')])
                         \<sigma>1
                     else
                       (case call_DeleteWorkout wh workoutID \<sigma>1 of
                          (err, \<sigma>2) \<Rightarrow>
                            if err = Some ErrNoRows then
                              respond (http_Error ''Workout not found'' StatusNotFound) \<sigma>2
                            else if err \<noteq> None then
                              respond (http_Error ''error deleting the workout''
                                         StatusInternalServerError) \<sigma>2
                            else respond (WriteHeader StatusNoContent) \<sigma>2)))))"

section \<open>An in-memory store\<close>

text \<open>
  Modelled from the spec: the implementation of \<open>store.WorkoutStore\<close> (the Postgres store
  of package \<open>store\<close>) is missing from the sources. This is the aggregate store of spec
  section 4.4 over a list of rows: \<open>GetByID\<close> returns nil and no error when the row is
  absent, \<open>GetOwner\<close> is the existence and ownership probe and fails with
  \<open>sql.ErrNoRows\<close> when the row is absent, \<open>Create\<close> inserts the parent row under a generated
  id with its entries referencing that id, \<open>Update\<close> replaces the scalar fields and the
  whole entry collection and never reassigns the owner, \<open>Delete\<close> removes the row with
  its entries. It has no storage failures of its own.
\<close>

record MemDB =
  rows :: "Workout list"
  next_id :: int

definition Mem_find :: "int \<Rightarrow> MemDB \<Rightarrow> Workout option" where
  "Mem_find i s = find (\<lambda>r. ID r = i) (rows s)"

definition Mem_CreateWorkout :: "Workout \<Rightarrow> MemDB \<Rightarrow> (error + Workout option) \<times> MemDB" where
  "Mem_CreateWorkout wk s =
     (let created = wk\<lparr>ID := next_id s,
                        Entries := map (\<lambda>e. e\<lparr>WorkoutID := next_id s\<rparr>) (Entries wk)\<rparr>
      in (Inr (Some created), s\<lparr>rows := rows s @ [created], next_id := next_id s + 1\<rparr>))"

definition Mem_GetWorkoutByID :: "int \<Rightarrow> MemDB \<Rightarrow> (error + Workout option) \<times> MemDB" where
  "Mem_GetWorkoutByID i s = (Inr (Mem_find i s), s)"

definition Mem_UpdateWorkout :: "Workout \<Rightarrow> MemDB \<Rightarrow> (error option \<times> Workout) \<times> MemDB" where
  "Mem_UpdateWorkout wk s =
     (case Mem_find (ID wk) s of
        None \<Rightarrow> ((Some ErrNoRows, wk), s)
      | Some old \<Rightarrow>
          ((None, wk),
           s\<lparr>rows := map (\<lambda>r. if ID r = ID wk then wk\<lparr>UserID := UserID r\<rparr> else r) (rows s)\<rparr>))"

definition Mem_DeleteWorkout :: "int \<Rightarrow> MemDB \<Rightarrow> error option \<times> MemDB" where
  "Mem_DeleteWorkout i s =
     (case Mem_find i s of
        None \<Rightarrow> (Some ErrNoRows, s)
      | Some old \<Rightarrow> (None, s\<lparr>rows := filter (\<lambda>r. ID r \<noteq> i) (rows s)\<rparr>))"

definition Mem_GetWorkoutOwner :: "int \<Rightarrow> MemDB \<Rightarrow> (error + int) \<times> MemDB" where
  "Mem_GetWorkoutOwner i s =
     (case Mem_find i s of
        None \<Rightarrow> (Inl ErrNoRows, s)
      | Some r \<Rightarrow> (Inr (UserID r), s))"

definition MemStore :: "MemDB WorkoutStore" where
  "MemStore =
     \<lparr>CreateWorkout = Mem_CreateWorkout,
      GetWorkoutByID = Mem_GetWorkoutByID,
      UpdateWorkout = Mem_UpdateWorkout,
      DeleteWorkout = Mem_DeleteWorkout,
      GetWorkoutOwner = Mem_GetWorkoutOwner\<rparr>"

text \<open>
  The id a handler works on: the parsed parameter, or the 0 that \<open>ReadIDParam\<close> returns
  beside its error.
\<close>

definition targetID :: "'b Request \<Rightarrow> int" where
  "targetID req = (case ReadIDParam req of Inl err \<Rightarrow> 0 | Inr i \<Rightarrow> i)"

text \<open>A store whose two read methods leave its state as it was.\<close>

definition pure_reads :: "'s WorkoutStore \<Rightarrow> bool" where
  "pure_reads wh \<longleftrightarrow>
     (\<forall>i s. snd (GetWorkoutByID wh i s) = s \<and> snd (GetWorkoutOwner wh i s) = s)"

section \<open>The token service\<close>

text \<open>
  Modelled from the spec: the token service (\<open>IssueToken\<close>, \<open>ValidateToken\<close>) is missing
  from the sources; this follows spec section 4.2. The one-way hash \<open>h\<close>, the random
  secret and the clock \<open>now\<close> are inputs. \<open>IssueToken\<close> persists
  \<open>{hash, userID, expiry = now + ttl, scope}\<close> under the hash and returns the plaintext
  with the record. \<open>ValidateToken\<close> hashes the presented value, looks the record up by
  hash and fails with \<open>NotFound\<close> if none matches, \<open>Expired\<close> if \<open>now > expiry\<close>,
  \<open>ScopeMismatch\<close> if the scope differs, and \<open>OrphanedToken\<close> if the user no longer
  exists.
\<close>

record Token =
  Hash :: string
  Token_UserID :: int
  Expiry :: int
  Scope :: string

record TokenState =
  tokens :: "string \<rightharpoonup> Token"
  users :: "int \<rightharpoonup> User"

datatype TokenError = NotFound | Expired | ScopeMismatch | OrphanedToken

definition IssueToken ::
  "(string \<Rightarrow> string) \<Rightarrow> string \<Rightarrow> int \<Rightarrow> int \<Rightarrow> int \<Rightarrow> string \<Rightarrow> TokenState
     \<Rightarrow> (string \<times> Token) \<times> TokenState" where
  "IssueToken h secret now userID ttl scope st =
     (let record = \<lparr>Hash = h secret, Token_UserID = userID, Expiry = now + ttl, Scope = scope\<rparr>
      in ((secret, record), st\<lparr>tokens := (tokens st)(h secret \<mapsto> record)\<rparr>))"

definition ValidateToken ::
  "(string \<Rightarrow> string) \<Rightarrow> int \<Rightarrow> string \<Rightarrow> string \<Rightarrow> TokenState \<Rightarrow> TokenError + User" where
  "ValidateToken h now presentedPlaintext requiredScope st =
     (case tokens st (h presentedPlaintext) of
        None \<Rightarrow> Inl NotFound
      | Some t \<Rightarrow>
          if now > Expiry t then Inl Expired
          else if Scope t \<noteq> requiredScope then Inl ScopeMismatch
          else (case users st (Token_UserID t) of
                  None \<Rightarrow> Inl OrphanedToken
                | Some u \<Rightarrow> Inr u))"

section \<open>Example data\<close>

definition user1 :: User where
  "user1 = \<lparr>User_ID = 1, Username = ''alice'', Email = ''alice@example.com'',
             PasswordHash = ''$2a$12$hash'', Bio = []\<rparr>"

definition user42 :: User where
  "user42 = \<lparr>User_ID = 42, Username = ''bob'', Email = ''bob@example.com'',
              PasswordHash = ''$2a$12$other'', Bio = ''lifter''\<rparr>"

definition entry1 :: WorkoutEntry where
  "entry1 = \<lparr>Entry_ID = 1, WorkoutID = 6, ExerciseName = ''squat'', Sets = 3, Reps = 10,
              Weight = 60, Notes = ''warm up first''\<rparr>"

definition workout5 :: Workout where
  "workout5 = \<lparr>ID = 5, UserID = 2, Title = ''Push day'', Description = ''bench and dips'',
                DurationMinutes = 45, CaloriesBurned = 300, Entries = []\<rparr>"

definition workout6 :: Workout where
  "workout6 = \<lparr>ID = 6, UserID = 1, Title = ''Leg day'', Description = ''squats'',
                DurationMinutes = 60, CaloriesBurned = 500, Entries = [entry1]\<rparr>"

definition example_db :: MemDB where
  "example_db = \<lparr>rows = [workout5, workout6], next_id = 7\<rparr>"

definition title_only :: updateWorkoutRequest where
  "title_only = \<lparr>upd_Title = Some ''X'', upd_Description = None, upd_DurationMinutes = None,
                  upd_CaloriesBurned = None, upd_Entries = None\<rparr>"

definition empty_entries :: updateWorkoutRequest where
  "empty_entries = \<lparr>upd_Title = None, upd_Description = None, upd_DurationMinutes = None,
                     upd_CaloriesBurned = None, upd_Entries = Some []\<rparr>"

text \<open>
  A store double whose ownership probe finds no row although the fetch did, as after a
  concurrent delete between the two calls.
\<close>

definition RacyStore :: "MemDB WorkoutStore" where
  "RacyStore = MemStore\<lparr>GetWorkoutOwner := (\<lambda>i s. (Inl ErrNoRows, s))\<rparr>"

text \<open>A store double whose fetch fails.\<close>

definition FailingStore :: "MemDB WorkoutStore" where
  "FailingStore =
     MemStore\<lparr>GetWorkoutByID := (\<lambda>i s. (Inl (ErrOther ''connection refused''), s))\<rparr>"

section \<open>Facts about the response writer and the id parameter\<close>

lemma WriteJson_fresh [simp]:
  "WriteJson c e NewResponseWriter = \<lparr>status = Some c, body = [JsonBody e]\<rparr>"
  by (simp add: WriteJson_def Write_def WriteHeader_def NewResponseWriter_def)

lemma http_Error_fresh [simp]:
  "http_Error m c NewResponseWriter = \<lparr>status = Some c, body = [TextBody m]\<rparr>"
  by (simp add: http_Error_def Write_def WriteHeader_def NewResponseWriter_def)

lemma http_NotFound_fresh [simp]:
  "http_NotFound NewResponseWriter =
     \<lparr>status = Some StatusNotFound, body = [TextBody ''404 page not found'']\<rparr>"
  by (simp add: http_NotFound_def)

lemma WriteHeader_fresh [simp]:
  "WriteHeader c NewResponseWriter = \<lparr>status = Some c, body = []\<rparr>"
  by (simp add: WriteHeader_def NewResponseWriter_def)

lemma status_WriteJson_committed [simp]:
  "status rw = Some c \<Longrightarrow> status (WriteJson c' e rw) = Some c"
  by (simp add: WriteJson_def Write_def WriteHeader_def)

lemma status_http_NotFound_committed [simp]:
  "status rw = Some c \<Longrightarrow> status (http_NotFound rw) = Some c"
  by (simp add: http_NotFound_def http_Error_def Write_def WriteHeader_def)

lemma ParseInt_empty [simp]: "ParseInt [] = Inl ErrSyntax"
  by (simp add: ParseInt_def)

lemma ReadIDParam_Inr_iff: "ReadIDParam req = Inr i \<longleftrightarrow> ParseInt (URLParam_id req) = Inr i"
  by (auto simp: ReadIDParam_def Let_def split: sum.splits)

lemma ReadIDParam_malformed:
  assumes "URLParam_id req = [] \<or> isl (ParseInt (URLParam_id req))"
  obtains e where "ReadIDParam req = Inl e"
proof -
  from assms have "isl (ReadIDParam req)"
    by (auto simp: ReadIDParam_def Let_def split: sum.splits)
  then show thesis
    using that by (cases "ReadIDParam req") auto
qed

lemma ParseInt_abc: "ParseInt ''abc'' = Inl ErrSyntax"
  by (simp add: ParseInt_def ParseUint_def)

lemma ParseInt_5: "ParseInt ''5'' = Inr 5"
  by (simp add: ParseInt_def ParseUint_def)

lemma ParseInt_6: "ParseInt ''6'' = Inr 6"
  by (simp add: ParseInt_def ParseUint_def)

lemma ParseInt_7: "ParseInt ''7'' = Inr 7"
  by (simp add: ParseInt_def ParseUint_def)

lemmas world_simps = NewWorld_def respond_def logger_Printf_def call_CreateWorkout_def
  call_GetWorkoutByID_def call_UpdateWorkout_def call_DeleteWorkout_def call_GetWorkoutOwner_def

lemmas mem_simps = MemStore_def Mem_CreateWorkout_def Mem_GetWorkoutByID_def
  Mem_UpdateWorkout_def Mem_DeleteWorkout_def Mem_GetWorkoutOwner_def Mem_find_def
  example_db_def workout5_def workout6_def user1_def entry1_def

section \<open>The update handler, path by path\<close>

lemma update_wellformed:
  "ReadIDParam req = Inr i \<Longrightarrow> HandleUpdateWorkoutByID wh req \<sigma> = updateFrom wh req i \<sigma>"
  by (simp add: HandleUpdateWorkoutByID_def readUpdateID_def)

lemma update_malformed:
  "ReadIDParam req = Inl e \<Longrightarrow>
   HandleUpdateWorkoutByID wh req \<sigma> =
     updateFrom wh req 0
       (respond (WriteJson StatusBadRequest [(''error'', JString ''Invalid workout update id'')])
          (logger_Printf ''Error : readIdParam : %v '' e \<sigma>))"
  by (simp add: HandleUpdateWorkoutByID_def readUpdateID_def)

lemma updateFrom_fetch_error:
  "GetWorkoutByID wh i (db \<sigma>) = (Inl e, d) \<Longrightarrow>
   updateFrom wh req i \<sigma> =
     \<sigma>\<lparr>db := d, calls := calls \<sigma> @ [CallGetWorkoutByID i],
       logs := logs \<sigma> @ [(''Error : getWorkoutByID : %v '', e)],
       w := WriteJson StatusInternalServerError
              [(''error'', JString ''Internal server error'')] (w \<sigma>)\<rparr>"
  by (simp add: updateFrom_def world_simps)

lemma updateFrom_fetch_nil:
  "GetWorkoutByID wh i (db \<sigma>) = (Inr None, d) \<Longrightarrow>
   updateFrom wh req i \<sigma> =
     \<sigma>\<lparr>db := d, calls := calls \<sigma> @ [CallGetWorkoutByID i], w := http_NotFound (w \<sigma>)\<rparr>"
  by (simp add: updateFrom_def world_simps)

lemma updateFrom_decode_error:
  "GetWorkoutByID wh i (db \<sigma>) = (Inr (Some wk), d) \<Longrightarrow> Body req = Inl e \<Longrightarrow>
   updateFrom wh req i \<sigma> =
     \<sigma>\<lparr>db := d, calls := calls \<sigma> @ [CallGetWorkoutByID i],
       logs := logs \<sigma> @ [(''Error : decodingUpdateRequest : %v '', e)],
       w := WriteJson StatusBadRequest [(''error'', JString ''Invalid request payload'')] (w \<sigma>)\<rparr>"
  by (simp add: updateFrom_def world_simps)

lemma updateFrom_anonymous:
  "GetWorkoutByID wh i (db \<sigma>) = (Inr (Some wk), d) \<Longrightarrow> Body req = Inr r \<Longrightarrow>
   GetUser req = NilUser \<or> GetUser req = AnonymousUser \<Longrightarrow>
   updateFrom wh req i \<sigma> =
     \<sigma>\<lparr>db := d, calls := calls \<sigma> @ [CallGetWorkoutByID i],
       w := WriteJson StatusBadRequest
              [(''error'', JString ''you must be logged in to update'')] (w \<sigma>)\<rparr>"
  by (auto simp: updateFrom_def world_simps Let_def)

lemma updateFrom_probe_error:
  "GetWorkoutByID wh i (db \<sigma>) = (Inr (Some wk), d1) \<Longrightarrow> Body req = Inr r \<Longrightarrow>
   GetUser req = UserRef u \<Longrightarrow> GetWorkoutOwner wh i d1 = (Inl e, d2) \<Longrightarrow>
   updateFrom wh req i \<sigma> =
     \<sigma>\<lparr>db := d2, calls := calls \<sigma> @ [CallGetWorkoutByID i, CallGetWorkoutOwner i],
       w := (if errors_Is e ErrNoRows
             then WriteJson StatusBadRequest [(''error'', JString ''workout does not exists'')]
             else WriteJson StatusInternalServerError
                    [(''error'', JString ''internal server error'')]) (w \<sigma>)\<rparr>"
  by (simp add: updateFrom_def world_simps Let_def)

lemma updateFrom_forbidden:
  "GetWorkoutByID wh i (db \<sigma>) = (Inr (Some wk), d1) \<Longrightarrow> Body req = Inr r \<Longrightarrow>
   GetUser req = UserRef u \<Longrightarrow> GetWorkoutOwner wh i d1 = (Inr ow, d2) \<Longrightarrow> ow \<noteq> User_ID u \<Longrightarrow>
   updateFrom wh req i \<sigma> =
     \<sigma>\<lparr>db := d2, calls := calls \<sigma> @ [CallGetWorkoutByID i, CallGetWorkoutOwner i],
       w := WriteJson StatusForbidden
              [(''error'', JString ''you are not authorized to update this workout'')] (w \<sigma>)\<rparr>"
  by (simp add: updateFrom_def world_simps Let_def)

lemma updateFrom_owner:
  "GetWorkoutByID wh i (db \<sigma>) = (Inr (Some wk), d1) \<Longrightarrow> Body req = Inr r \<Longrightarrow>
   GetUser req = UserRef u \<Longrightarrow> GetWorkoutOwner wh i d1 = (Inr (User_ID u), d2) \<Longrightarrow>
   UpdateWorkout wh ((applyUpdateRequest r wk)\<lparr>ID := i\<rparr>) d2 = ((err, updated), d3) \<Longrightarrow>
   updateFrom wh req i \<sigma> =
     \<sigma>\<lparr>db := d3,
       calls := calls \<sigma> @ [CallGetWorkoutByID i, CallGetWorkoutOwner i,
                            CallUpdateWorkout ((applyUpdateRequest r wk)\<lparr>ID := i\<rparr>)],
       logs := (case err of None \<Rightarrow> logs \<sigma>
                | Some e \<Rightarrow> logs \<sigma> @ [(''Error : updateWorkout : %v '', e)]),
       w := (case err of
               None \<Rightarrow> WriteJson StatusOK [(''workout'', JWorkout (Some updated))]
             | Some e \<Rightarrow> WriteJson StatusInternalServerError
                           [(''error'', JString ''Internal server error'')]) (w \<sigma>)\<rparr>"
  by (cases err) (simp_all add: updateFrom_def world_simps Let_def)

lemma updateFrom_status_committed:
  "status (w \<sigma>) = Some c \<Longrightarrow> status (w (updateFrom wh req i \<sigma>)) = Some c"
  by (auto simp: updateFrom_def world_simps Let_def split: sum.splits option.splits prod.splits)

lemma updateFrom_guarded:
  assumes "\<forall>u. GetUser req = UserRef u \<longrightarrow>
             fst (GetWorkoutOwner wh i (snd (GetWorkoutByID wh i (db \<sigma>)))) \<noteq> Inr (User_ID u)"
  shows "filter is_mutation (calls (updateFrom wh req i \<sigma>)) = filter is_mutation (calls \<sigma>)"
proof (cases "GetUser req")
  case (UserRef u)
  with assms have "\<And>r d1 d2. GetWorkoutByID wh i (db \<sigma>) = (r, d1) \<Longrightarrow>
                     GetWorkoutOwner wh i d1 \<noteq> (Inr (User_ID u), d2)"
    by fastforce
  with UserRef show ?thesis
    by (auto simp: updateFrom_def world_simps Let_def split: sum.splits option.splits prod.splits)
qed (auto simp: updateFrom_def world_simps Let_def split: sum.splits option.splits prod.splits)

lemma updateFrom_reads_only:
  assumes "pure_reads wh"
    and "\<forall>u. GetUser req = UserRef u \<longrightarrow>
             fst (GetWorkoutOwner wh i (snd (GetWorkoutByID wh i (db \<sigma>)))) \<noteq> Inr (User_ID u)"
  shows "db (updateFrom wh req i \<sigma>) = db \<sigma>"
proof -
  have g: "\<And>r d. GetWorkoutByID wh i (db \<sigma>) = (r, d) \<Longrightarrow> d = db \<sigma>"
    using assms(1) by (metis pure_reads_def snd_conv)
  have o: "\<And>r d. GetWorkoutOwner wh i (db \<sigma>) = (r, d) \<Longrightarrow> d = db \<sigma>"
    using assms(1) by (metis pure_reads_def snd_conv)
  show ?thesis
  proof (cases "GetUser req")
    case (UserRef u)
    with assms(2) have "\<And>r d1 d2. GetWorkoutByID wh i (db \<sigma>) = (r, d1) \<Longrightarrow>
                     GetWorkoutOwner wh i d1 \<noteq> (Inr (User_ID u), d2)"
      by fastforce
    with UserRef g o show ?thesis
      by (auto simp: updateFrom_def world_simps Let_def
               split: sum.splits option.splits prod.splits)
  qed (use g in \<open>auto simp: updateFrom_def world_simps Let_def
                     split: sum.splits option.splits prod.splits\<close>)
qed

section \<open>The delete handler, path by path\<close>

lemma delete_malformed:
  "URLParam_id req = [] \<or> isl (ParseInt (URLParam_id req)) \<Longrightarrow>
   HandleDeleteWorkoutByID wh req \<sigma> = \<sigma>\<lparr>w := http_NotFound (w \<sigma>)\<rparr>"
  by (auto simp: HandleDeleteWorkoutByID_def world_simps Let_def split: sum.splits)

lemma delete_anonymous:
  "ParseInt (URLParam_id req) = Inr i \<Longrightarrow> GetUser req = NilUser \<or> GetUser req = AnonymousUser \<Longrightarrow>
   HandleDeleteWorkoutByID wh req \<sigma> =
     \<sigma>\<lparr>w := WriteJson StatusBadRequest
              [(''error'', JString ''you must be logged in to update'')] (w \<sigma>)\<rparr>"
  by (auto simp: HandleDeleteWorkoutByID_def world_simps Let_def)

lemma delete_probe_error:
  "ParseInt (URLParam_id req) = Inr i \<Longrightarrow> GetUser req = UserRef u \<Longrightarrow>
   GetWorkoutOwner wh i (db \<sigma>) = (Inl e, d) \<Longrightarrow>
   HandleDeleteWorkoutByID wh req \<sigma> =
     \<sigma>\<lparr>db := d, calls := calls \<sigma> @ [CallGetWorkoutOwner i],
       w := (if errors_Is e ErrNoRows
             then WriteJson StatusBadRequest [(''error'', JString ''workout does not exists'')]
             else WriteJson StatusInternalServerError
                    [(''error'', JString ''internal server error'')]) (w \<sigma>)\<rparr>"
  by (auto simp: HandleDeleteWorkoutByID_def world_simps Let_def)

lemma delete_forbidden:
  "ParseInt (URLParam_id req) = Inr i \<Longrightarrow> GetUser req = UserRef u \<Longrightarrow>
   GetWorkoutOwner wh i (db \<sigma>) = (Inr ow, d) \<Longrightarrow> ow \<noteq> User_ID u \<Longrightarrow>
   HandleDeleteWorkoutByID wh req \<sigma> =
     \<sigma>\<lparr>db := d, calls := calls \<sigma> @ [CallGetWorkoutOwner i],
       w := WriteJson StatusForbidden
              [(''error'', JString ''you are not authorized to delete this workout'')] (w \<sigma>)\<rparr>"
  by (auto simp: HandleDeleteWorkoutByID_def world_simps Let_def)

lemma delete_guarded:
  assumes "\<forall>u. GetUser req = UserRef u \<longrightarrow>
             fst (GetWorkoutOwner wh (targetID req) (db \<sigma>)) \<noteq> Inr (User_ID u)"
  shows "filter is_mutation (calls (HandleDeleteWorkoutByID wh req \<sigma>)) =
         filter is_mutation (calls \<sigma>)"
proof (cases "ParseInt (URLParam_id req)")
  case (Inl e)
  then show ?thesis by (simp add: delete_malformed)
next
  case (Inr i)
  then have t: "targetID req = i"
    by (simp add: targetID_def ReadIDParam_Inr_iff [THEN iffD2])
  show ?thesis
  proof (cases "GetUser req")
    case (UserRef u)
    with assms t have "\<And>d. GetWorkoutOwner wh i (db \<sigma>) \<noteq> (Inr (User_ID u), d)"
      by fastforce
    with UserRef Inr show ?thesis
      by (auto simp: HandleDeleteWorkoutByID_def world_simps Let_def
               split: sum.splits option.splits prod.splits)
  qed (use Inr in \<open>simp_all add: delete_anonymous\<close>)
qed

lemma delete_reads_only:
  assumes "pure_reads wh"
    and "\<forall>u. GetUser req = UserRef u \<longrightarrow>
             fst (GetWorkoutOwner wh (targetID req) (db \<sigma>)) \<noteq> Inr (User_ID u)"
  shows "db (HandleDeleteWorkoutByID wh req \<sigma>) = db \<sigma>"
proof (cases "ParseInt (URLParam_id req)")
  case (Inl e)
  then show ?thesis by (simp add: delete_malformed)
next
  case (Inr i)
  then have t: "targetID req = i"
    by (simp add: targetID_def ReadIDParam_Inr_iff [THEN iffD2])
  have o: "\<And>r d. GetWorkoutOwner wh i (db \<sigma>) = (r, d) \<Longrightarrow> d = db \<sigma>"
    using assms(1) by (metis pure_reads_def snd_conv)
  show ?thesis
  proof (cases "GetUser req")
    case (UserRef u)
    with assms(2) t have "\<And>d. GetWorkoutOwner wh i (db \<sigma>) \<noteq> (Inr (User_ID u), d)"
      by fastforce
    with UserRef Inr o show ?thesis
      by (auto simp: HandleDeleteWorkoutByID_def world_simps Let_def
               split: sum.splits option.splits prod.splits)
  qed (use Inr in \<open>simp_all add: delete_anonymous\<close>)
qed

lemma MemStore_pure_reads: "pure_reads MemStore"
  by (simp add: pure_reads_def MemStore_def Mem_GetWorkoutByID_def Mem_GetWorkoutOwner_def
           split: option.splits)

section \<open>The create handler, path by path\<close>

lemma create_decode_error:
  "Body req = Inl e \<Longrightarrow>
   HandleCreateWorkout wh req \<sigma> =
     \<sigma>\<lparr>logs := logs \<sigma> @ [(''Error : decodingCreateWorkout : %v '', e)],
       w := WriteJson StatusBadRequest [(''error'', JString ''Invalid request sent'')] (w \<sigma>)\<rparr>"
  by (simp add: HandleCreateWorkout_def world_simps)

lemma create_anonymous:
  "Body req = Inr wk \<Longrightarrow> GetUser req = NilUser \<or> GetUser req = AnonymousUser \<Longrightarrow>
   HandleCreateWorkout wh req \<sigma> =
     \<sigma>\<lparr>w := WriteJson StatusBadRequest [(''error'', JString ''you must be logged in'')] (w \<sigma>)\<rparr>"
  by (auto simp: HandleCreateWorkout_def world_simps Let_def)

lemma create_authenticated:
  "Body req = Inr wk \<Longrightarrow> GetUser req = UserRef u \<Longrightarrow>
   CreateWorkout wh (wk\<lparr>UserID := User_ID u\<rparr>) (db \<sigma>) = (r, d) \<Longrightarrow>
   HandleCreateWorkout wh req \<sigma> =
     \<sigma>\<lparr>db := d, calls := calls \<sigma> @ [CallCreateWorkout (wk\<lparr>UserID := User_ID u\<rparr>)],
       logs := (case r of Inl e \<Rightarrow> logs \<sigma> @ [(''Error : createWorkout : %v '', e)]
                | Inr created \<Rightarrow> logs \<sigma>),
       w := (case r of
               Inl e \<Rightarrow> WriteJson StatusInternalServerError
                          [(''error'', JString ''failed to create workout'')]
             | Inr created \<Rightarrow> WriteJson StatusCreated [(''workout'', JWorkout created)])
              (w \<sigma>)\<rparr>"
  by (cases r) (simp_all add: HandleCreateWorkout_def world_simps Let_def)

section \<open>Responses, store calls and authorization\<close>

text \<open>
  C9. A get request with a well-formed id for which the store returns without error is
  answered with status 200 and a body holding the store's result; when the store
  returns nil (the workout is absent) the body holds a null workout and the status is
  still 200.
\<close>

theorem get_returns_200_with_store_result:
  assumes "ReadIDParam req = Inr i" and "GetWorkoutByID wh i s = (Inr r, d)"
  shows "HandleWorkoutByID wh req (NewWorld s) =
           \<lparr>db = d, calls = [CallGetWorkoutByID i], logs = [],
            w = \<lparr>status = Some StatusOK, body = [JsonBody [(''workout'', JWorkout r)]]\<rparr>\<rparr>"
  using assms by (simp add: HandleWorkoutByID_def world_simps)

theorem get_returns_200_with_store_result_witness:
  "ReadIDParam \<lparr>URLParam_id = ''7'', GetUser = AnonymousUser, Body = Inr ()\<rparr> = Inr 7
   \<and> GetWorkoutByID MemStore 7 example_db = (Inr None, example_db)
   \<and> HandleWorkoutByID MemStore \<lparr>URLParam_id = ''7'', GetUser = AnonymousUser, Body = Inr ()\<rparr>
        (NewWorld example_db) =
       \<lparr>db = example_db, calls = [CallGetWorkoutByID 7], logs = [],
        w = \<lparr>status = Some StatusOK, body = [JsonBody [(''workout'', JWorkout None)]]\<rparr>\<rparr>"
proof -
  let ?req = "\<lparr>URLParam_id = ''7'', GetUser = AnonymousUser, Body = Inr ()\<rparr>"
  have a: "ReadIDParam ?req = Inr 7"
    by (simp add: ReadIDParam_Inr_iff ParseInt_7)
  have b: "GetWorkoutByID MemStore 7 example_db = (Inr None, example_db)"
    by (simp add: mem_simps)
  from a b get_returns_200_with_store_result [OF a b] show ?thesis by blast
qed

text \<open>
  C10 (the code departs from it). An update request whose id is malformed is answered
  400, yet the handler then fetches workout 0 from the store and writes a second
  response.
\<close>

theorem update_malformed_id_goes_on:
  "HandleUpdateWorkoutByID MemStore
     \<lparr>URLParam_id = ''abc'', GetUser = UserRef user1, Body = Inr title_only\<rparr>
     (NewWorld example_db) =
   \<lparr>db = example_db, calls = [CallGetWorkoutByID 0],
    logs = [(''Error : readIdParam : %v '', ErrOther ''Invalid id parameter type'')],
    w = \<lparr>status = Some StatusBadRequest,
          body = [JsonBody [(''error'', JString ''Invalid workout update id'')],
                  TextBody ''404 page not found'']\<rparr>\<rparr>"
proof -
  let ?req = "\<lparr>URLParam_id = ''abc'', GetUser = UserRef user1, Body = Inr title_only\<rparr>"
  have a: "ReadIDParam ?req = Inl (ErrOther ''Invalid id parameter type'')"
    by (simp add: ReadIDParam_def ParseInt_abc)
  have b: "GetWorkoutByID MemStore 0 example_db = (Inr None, example_db)"
    by (simp add: mem_simps)
  show ?thesis
    by (simp add: update_malformed [OF a] updateFrom_fetch_nil [where d = example_db] b
          world_simps http_NotFound_def http_Error_def Write_def WriteHeader_def WriteJson_def
          NewResponseWriter_def)
qed

text \<open>
  C7 (amended). For a request whose id parameter is missing or does not parse as a
  base-10 64-bit integer: the get handler answers 400 with "Invalid workout id" and
  makes no store call; the delete handler answers 404 (\<open>http.NotFound\<close>) and makes no
  store call; the status of the update handler's response is 400.
\<close>

theorem malformed_id_get_400_delete_404:
  fixes req :: "updateWorkoutRequest Request"
  assumes bad: "URLParam_id req = [] \<or> isl (ParseInt (URLParam_id req))"
  shows "w (HandleWorkoutByID wh req (NewWorld s)) =
           \<lparr>status = Some StatusBadRequest,
            body = [JsonBody [(''error'', JString ''Invalid workout id'')]]\<rparr>
       \<and> calls (HandleWorkoutByID wh req (NewWorld s)) = []
       \<and> db (HandleWorkoutByID wh req (NewWorld s)) = s
       \<and> HandleDeleteWorkoutByID wh req (NewWorld s) =
            \<lparr>db = s, calls = [], logs = [],
             w = \<lparr>status = Some StatusNotFound, body = [TextBody ''404 page not found'']\<rparr>\<rparr>
       \<and> status (w (HandleUpdateWorkoutByID wh req (NewWorld s))) = Some StatusBadRequest"
proof -
  obtain e where e: "ReadIDParam req = Inl e"
    using bad by (rule ReadIDParam_malformed)
  have g: "HandleWorkoutByID wh req (NewWorld s) =
            \<lparr>db = s, calls = [], logs = [(''Error : readIdParam : %v '', e)],
             w = \<lparr>status = Some StatusBadRequest,
                   body = [JsonBody [(''error'', JString ''Invalid workout id'')]]\<rparr>\<rparr>"
    using e by (simp add: HandleWorkoutByID_def world_simps)
  have d: "HandleDeleteWorkoutByID wh req (NewWorld s) =
            \<lparr>db = s, calls = [], logs = [],
             w = \<lparr>status = Some StatusNotFound, body = [TextBody ''404 page not found'']\<rparr>\<rparr>"
    by (simp add: delete_malformed [OF bad]) (simp add: NewWorld_def)
  have u: "status (w (HandleUpdateWorkoutByID wh req (NewWorld s))) = Some StatusBadRequest"
    by (simp add: update_malformed [OF e] updateFrom_status_committed world_simps)
  from g d u show ?thesis by simp
qed

theorem malformed_id_get_400_delete_404_witness:
  "(URLParam_id \<lparr>URLParam_id = ''abc'', GetUser = UserRef user1, Body = Inr title_only\<rparr> = []
      \<or> isl (ParseInt (URLParam_id
            \<lparr>URLParam_id = ''abc'', GetUser = UserRef user1, Body = Inr title_only\<rparr>)))
   \<and> w (HandleWorkoutByID MemStore
          \<lparr>URLParam_id = ''abc'', GetUser = UserRef user1, Body = Inr title_only\<rparr>
          (NewWorld example_db)) =
       \<lparr>status = Some StatusBadRequest,
        body = [JsonBody [(''error'', JString ''Invalid workout id'')]]\<rparr>
   \<and> w (HandleDeleteWorkoutByID MemStore
          \<lparr>URLParam_id = ''abc'', GetUser = UserRef user1, Body = Inr title_only\<rparr>
          (NewWorld example_db)) =
       \<lparr>status = Some StatusNotFound, body = [TextBody ''404 page not found'']\<rparr>
   \<and> status (w (HandleUpdateWorkoutByID MemStore
          \<lparr>URLParam_id = ''abc'', GetUser = UserRef user1, Body = Inr title_only\<rparr>
          (NewWorld example_db))) = Some StatusBadRequest"
proof -
  let ?req = "\<lparr>URLParam_id = ''abc'', GetUser = UserRef user1, Body = Inr title_only\<rparr>"
  have bad: "URLParam_id ?req = [] \<or> isl (ParseInt (URLParam_id ?req))"
    by (simp add: ParseInt_abc)
  from bad malformed_id_get_400_delete_404 [OF bad, of MemStore example_db]
  show ?thesis by simp
qed

theorem malformed_id_delete_counterexample:
  "isl (ParseInt ''abc'')
   \<and> status (w (HandleDeleteWorkoutByID MemStore
        \<lparr>URLParam_id = ''abc'', GetUser = UserRef user1, Body = Inr ()\<rparr>
        (NewWorld example_db))) \<noteq> Some StatusBadRequest"
  by (simp add: ParseInt_abc delete_malformed NewWorld_def)

text \<open>
  C1 (amended). Let an authenticated user send an update or delete request for a
  workout of which the ownership probe does not report that user as the owner. Then
  neither handler invokes a mutating store method, whatever else the request holds, and
  with a store whose reads have no side effect the store's state is what it was. The
  delete handler answers 403 when the id parses and the probe returns the other owner;
  the update handler answers 403 when the id parses, the fetch finds the workout, the
  body decodes and the probe returns the other owner. (An update request that fails one
  of these earlier steps is answered by that step, for instance 400 for a body that
  does not decode.)
\<close>

theorem non_owner_never_mutates:
  fixes req :: "updateWorkoutRequest Request"
  assumes auth: "GetUser req = UserRef u"
    and del: "fst (GetWorkoutOwner wh (targetID req) s) \<noteq> Inr (User_ID u)"
    and upd: "fst (GetWorkoutOwner wh (targetID req) (snd (GetWorkoutByID wh (targetID req) s)))
                \<noteq> Inr (User_ID u)"
  shows "filter is_mutation (calls (HandleUpdateWorkoutByID wh req (NewWorld s))) = []
       \<and> filter is_mutation (calls (HandleDeleteWorkoutByID wh req (NewWorld s))) = []
       \<and> (pure_reads wh \<longrightarrow>
            db (HandleUpdateWorkoutByID wh req (NewWorld s)) = s
            \<and> db (HandleDeleteWorkoutByID wh req (NewWorld s)) = s)
       \<and> (\<forall>i ow d. ParseInt (URLParam_id req) = Inr i \<longrightarrow>
            GetWorkoutOwner wh i s = (Inr ow, d) \<longrightarrow>
            HandleDeleteWorkoutByID wh req (NewWorld s) =
              \<lparr>db = d, calls = [CallGetWorkoutOwner i], logs = [],
               w = \<lparr>status = Some StatusForbidden,
                     body = [JsonBody [(''error'',
                               JString ''you are not authorized to delete this workout'')]]\<rparr>\<rparr>)
       \<and> (\<forall>i wk d1 r ow d2. ReadIDParam req = Inr i \<longrightarrow>
            GetWorkoutByID wh i s = (Inr (Some wk), d1) \<longrightarrow> Body req = Inr r \<longrightarrow>
            GetWorkoutOwner wh i d1 = (Inr ow, d2) \<longrightarrow>
            HandleUpdateWorkoutByID wh req (NewWorld s) =
              \<lparr>db = d2, calls = [CallGetWorkoutByID i, CallGetWorkoutOwner i], logs = [],
               w = \<lparr>status = Some StatusForbidden,
                     body = [JsonBody [(''error'',
                               JString ''you are not authorized to update this workout'')]]\<rparr>\<rparr>)"
proof -
  have updH: "HandleUpdateWorkoutByID wh req (NewWorld s) =
               updateFrom wh req (targetID req) (snd (readUpdateID req (NewWorld s)))"
    by (simp add: HandleUpdateWorkoutByID_def readUpdateID_def targetID_def split: sum.splits)
  have pre: "calls (snd (readUpdateID req (NewWorld s))) = []
             \<and> db (snd (readUpdateID req (NewWorld s))) = s"
    by (simp add: readUpdateID_def world_simps split: sum.splits)
  have gd: "\<forall>u'. GetUser req = UserRef u' \<longrightarrow>
      fst (GetWorkoutOwner wh (targetID req) (db (NewWorld s))) \<noteq> Inr (User_ID u')"
    using auth del by (simp add: NewWorld_def)
  have gu: "\<forall>u'. GetUser req = UserRef u' \<longrightarrow>
      fst (GetWorkoutOwner wh (targetID req)
            (snd (GetWorkoutByID wh (targetID req) (db (snd (readUpdateID req (NewWorld s)))))))
        \<noteq> Inr (User_ID u')"
    using auth upd by (simp add: pre)
  have c1: "filter is_mutation (calls (HandleUpdateWorkoutByID wh req (NewWorld s))) = []"
    by (simp add: updH updateFrom_guarded [OF gu] pre)
  have c2: "filter is_mutation (calls (HandleDeleteWorkoutByID wh req (NewWorld s))) = []"
    by (simp add: delete_guarded [OF gd]) (simp add: NewWorld_def)
  have c3: "pure_reads wh \<longrightarrow>
            db (HandleUpdateWorkoutByID wh req (NewWorld s)) = s
            \<and> db (HandleDeleteWorkoutByID wh req (NewWorld s)) = s"
  proof
    assume p: "pure_reads wh"
    have "db (HandleUpdateWorkoutByID wh req (NewWorld s)) = s"
      by (simp add: updH updateFrom_reads_only [OF p gu] pre)
    moreover have "db (HandleDeleteWorkoutByID wh req (NewWorld s)) = s"
      by (simp add: delete_reads_only [OF p gd]) (simp add: NewWorld_def)
    ultimately show "db (HandleUpdateWorkoutByID wh req (NewWorld s)) = s
            \<and> db (HandleDeleteWorkoutByID wh req (NewWorld s)) = s" by simp
  qed
  have c4: "\<forall>i ow d. ParseInt (URLParam_id req) = Inr i \<longrightarrow>
            GetWorkoutOwner wh i s = (Inr ow, d) \<longrightarrow>
            HandleDeleteWorkoutByID wh req (NewWorld s) =
              \<lparr>db = d, calls = [CallGetWorkoutOwner i], logs = [],
               w = \<lparr>status = Some StatusForbidden,
                     body = [JsonBody [(''error'',
                               JString ''you are not authorized to delete this workout'')]]\<rparr>\<rparr>"
  proof (intro allI impI)
    fix i ow d
    assume i: "ParseInt (URLParam_id req) = Inr i" and o: "GetWorkoutOwner wh i s = (Inr ow, d)"
    from i have "targetID req = i"
      by (simp add: targetID_def ReadIDParam_Inr_iff [THEN iffD2])
    with del o have ne: "ow \<noteq> User_ID u" by auto
    have o': "GetWorkoutOwner wh i (db (NewWorld s)) = (Inr ow, d)"
      using o by (simp add: NewWorld_def)
    show "HandleDeleteWorkoutByID wh req (NewWorld s) =
              \<lparr>db = d, calls = [CallGetWorkoutOwner i], logs = [],
               w = \<lparr>status = Some StatusForbidden,
                     body = [JsonBody [(''error'',
                               JString ''you are not authorized to delete this workout'')]]\<rparr>\<rparr>"
      by (simp add: delete_forbidden [OF i auth o' ne]) (simp add: NewWorld_def)
  qed
  have c5: "\<forall>i wk d1 r ow d2. ReadIDParam req = Inr i \<longrightarrow>
            GetWorkoutByID wh i s = (Inr (Some wk), d1) \<longrightarrow> Body req = Inr r \<longrightarrow>
            GetWorkoutOwner wh i d1 = (Inr ow, d2) \<longrightarrow>
            HandleUpdateWorkoutByID wh req (NewWorld s) =
              \<lparr>db = d2, calls = [CallGetWorkoutByID i, CallGetWorkoutOwner i], logs = [],
               w = \<lparr>status = Some StatusForbidden,
                     body = [JsonBody [(''error'',
                               JString ''you are not authorized to update this workout'')]]\<rparr>\<rparr>"
  proof (intro allI impI)
    fix i wk d1 r ow d2
    assume i: "ReadIDParam req = Inr i"
      and g: "GetWorkoutByID wh i s = (Inr (Some wk), d1)"
      and b: "Body req = Inr r"
      and o: "GetWorkoutOwner wh i d1 = (Inr ow, d2)"
    from i have "targetID req = i" by (simp add: targetID_def)
    with upd g o have ne: "ow \<noteq> User_ID u" by auto
    have g': "GetWorkoutByID wh i (db (NewWorld s)) = (Inr (Some wk), d1)"
      using g by (simp add: NewWorld_def)
    show "HandleUpdateWorkoutByID wh req (NewWorld s) =
              \<lparr>db = d2, calls = [CallGetWorkoutByID i, CallGetWorkoutOwner i], logs = [],
               w = \<lparr>status = Some StatusForbidden,
                     body = [JsonBody [(''error'',
                               JString ''you are not authorized to update this workout'')]]\<rparr>\<rparr>"
      by (simp add: update_wellformed [OF i] updateFrom_forbidden [OF g' b auth o ne])
         (simp add: NewWorld_def)
  qed
  from c1 c2 c3 c4 c5 show ?thesis by blast
qed

theorem non_owner_never_mutates_witness:
  "GetUser \<lparr>URLParam_id = ''5'', GetUser = UserRef user1, Body = Inr title_only\<rparr> = UserRef user1
   \<and> GetWorkoutOwner MemStore 5 example_db = (Inr 2, example_db)
   \<and> User_ID user1 = 1
   \<and> filter is_mutation (calls (HandleUpdateWorkoutByID MemStore
        \<lparr>URLParam_id = ''5'', GetUser = UserRef user1, Body = Inr title_only\<rparr>
        (NewWorld example_db))) = []
   \<and> db (HandleUpdateWorkoutByID MemStore
        \<lparr>URLParam_id = ''5'', GetUser = UserRef user1, Body = Inr title_only\<rparr>
        (NewWorld example_db)) = example_db
   \<and> HandleDeleteWorkoutByID MemStore
        \<lparr>URLParam_id = ''5'', GetUser = UserRef user1, Body = Inr title_only\<rparr>
        (NewWorld example_db) =
       \<lparr>db = example_db, calls = [CallGetWorkoutOwner 5], logs = [],
        w = \<lparr>status = Some StatusForbidden,
              body = [JsonBody [(''error'',
                        JString ''you are not authorized to delete this workout'')]]\<rparr>\<rparr>
   \<and> HandleUpdateWorkoutByID MemStore
        \<lparr>URLParam_id = ''5'', GetUser = UserRef user1, Body = Inr title_only\<rparr>
        (NewWorld example_db) =
       \<lparr>db = example_db, calls = [CallGetWorkoutByID 5, CallGetWorkoutOwner 5], logs = [],
        w = \<lparr>status = Some StatusForbidden,
              body = [JsonBody [(''error'',
                        JString ''you are not authorized to update this workout'')]]\<rparr>\<rparr>"
proof -
  let ?req = "\<lparr>URLParam_id = ''5'', GetUser = UserRef user1, Body = Inr title_only\<rparr>"
  have auth: "GetUser ?req = UserRef user1" by simp
  have i: "ReadIDParam ?req = Inr 5" and p: "ParseInt (URLParam_id ?req) = Inr 5"
    by (simp_all add: ReadIDParam_Inr_iff ParseInt_5)
  have t: "targetID ?req = 5" by (simp add: targetID_def i)
  have g: "GetWorkoutByID MemStore 5 example_db = (Inr (Some workout5), example_db)"
    by (simp add: mem_simps)
  have o: "GetWorkoutOwner MemStore 5 example_db = (Inr 2, example_db)"
    by (simp add: mem_simps)
  have u: "User_ID user1 = 1" by (simp add: user1_def)
  have del: "fst (GetWorkoutOwner MemStore (targetID ?req) example_db) \<noteq> Inr (User_ID user1)"
    by (simp add: t o u)
  have upd: "fst (GetWorkoutOwner MemStore (targetID ?req)
                    (snd (GetWorkoutByID MemStore (targetID ?req) example_db)))
               \<noteq> Inr (User_ID user1)"
    by (simp add: t g o u)
  have b: "Body ?req = Inr title_only" by simp
  note inst = non_owner_never_mutates [OF auth del upd]
  from inst have m: "filter is_mutation (calls (HandleUpdateWorkoutByID MemStore ?req
                      (NewWorld example_db))) = []" by blast
  from inst MemStore_pure_reads
  have d: "db (HandleUpdateWorkoutByID MemStore ?req (NewWorld example_db)) = example_db"
    by blast
  from inst p o have x: "HandleDeleteWorkoutByID MemStore ?req (NewWorld example_db) =
       \<lparr>db = example_db, calls = [CallGetWorkoutOwner 5], logs = [],
        w = \<lparr>status = Some StatusForbidden,
              body = [JsonBody [(''error'',
                        JString ''you are not authorized to delete this workout'')]]\<rparr>\<rparr>"
    by blast
  from inst i g b o have y: "HandleUpdateWorkoutByID MemStore ?req (NewWorld example_db) =
       \<lparr>db = example_db, calls = [CallGetWorkoutByID 5, CallGetWorkoutOwner 5], logs = [],
        w = \<lparr>status = Some StatusForbidden,
              body = [JsonBody [(''error'',
                        JString ''you are not authorized to update this workout'')]]\<rparr>\<rparr>"
    by blast
  from auth o u m d x y show ?thesis by blast
qed

theorem non_owner_update_bad_body_counterexample:
  "GetWorkoutOwner MemStore 5 example_db = (Inr 2, example_db)
   \<and> User_ID user1 = 1
   \<and> status (w (HandleUpdateWorkoutByID MemStore
        \<lparr>URLParam_id = ''5'', GetUser = UserRef user1, Body = Inl (ErrOther ''unexpected EOF'')\<rparr>
        (NewWorld example_db))) = Some StatusBadRequest
   \<and> status (w (HandleUpdateWorkoutByID MemStore
        \<lparr>URLParam_id = ''5'', GetUser = UserRef user1, Body = Inl (ErrOther ''unexpected EOF'')\<rparr>
        (NewWorld example_db))) \<noteq> Some StatusForbidden"
proof -
  let ?req = "\<lparr>URLParam_id = ''5'', GetUser = UserRef user1,
               Body = Inl (ErrOther ''unexpected EOF'')\<rparr> :: updateWorkoutRequest Request"
  have i: "ReadIDParam ?req = Inr 5"
    by (simp add: ReadIDParam_Inr_iff ParseInt_5)
  have g: "GetWorkoutByID MemStore 5 (db (NewWorld example_db)) = (Inr (Some workout5), example_db)"
    by (simp add: mem_simps NewWorld_def)
  have o: "GetWorkoutOwner MemStore 5 example_db = (Inr 2, example_db)"
    by (simp add: mem_simps)
  have b: "Body ?req = Inl (ErrOther ''unexpected EOF'')" by simp
  have "status (w (HandleUpdateWorkoutByID MemStore ?req (NewWorld example_db)))
          = Some StatusBadRequest"
    by (simp add: update_wellformed [OF i] updateFrom_decode_error [OF g b]) (simp add: NewWorld_def)
  with o show ?thesis by (simp add: user1_def)
qed

text \<open>
  C2 (amended). When the resolved identity of a create, update or delete request is nil
  or the Anonymous sentinel, the handler invokes no mutating store method. Once the
  request has passed the handler's earlier steps (create: the body decodes; delete: the
  id parses; update: the id parses, the fetch finds the workout and the body decodes),
  the response is status 400 (Bad Request) with the error "you must be logged in"
  (create) or "you must be logged in to update" (update, delete); create and delete
  have then made no store call at all, update only the fetch.
\<close>

theorem anonymous_rejected_with_400:
  fixes creq :: "Workout Request" and ureq :: "updateWorkoutRequest Request"
    and dreq :: "'b Request"
  assumes c: "GetUser creq = NilUser \<or> GetUser creq = AnonymousUser"
    and u: "GetUser ureq = NilUser \<or> GetUser ureq = AnonymousUser"
    and d: "GetUser dreq = NilUser \<or> GetUser dreq = AnonymousUser"
  shows "filter is_mutation (calls (HandleCreateWorkout wh creq (NewWorld s))) = []
       \<and> filter is_mutation (calls (HandleUpdateWorkoutByID wh ureq (NewWorld s))) = []
       \<and> filter is_mutation (calls (HandleDeleteWorkoutByID wh dreq (NewWorld s))) = []
       \<and> (\<forall>wk. Body creq = Inr wk \<longrightarrow>
            HandleCreateWorkout wh creq (NewWorld s) =
              \<lparr>db = s, calls = [], logs = [],
               w = \<lparr>status = Some StatusBadRequest,
                     body = [JsonBody [(''error'', JString ''you must be logged in'')]]\<rparr>\<rparr>)
       \<and> (\<forall>i. ParseInt (URLParam_id dreq) = Inr i \<longrightarrow>
            HandleDeleteWorkoutByID wh dreq (NewWorld s) =
              \<lparr>db = s, calls = [], logs = [],
               w = \<lparr>status = Some StatusBadRequest,
                     body = [JsonBody [(''error'',
                               JString ''you must be logged in to update'')]]\<rparr>\<rparr>)
       \<and> (\<forall>i wk d1 r. ReadIDParam ureq = Inr i \<longrightarrow>
            GetWorkoutByID wh i s = (Inr (Some wk), d1) \<longrightarrow> Body ureq = Inr r \<longrightarrow>
            HandleUpdateWorkoutByID wh ureq (NewWorld s) =
              \<lparr>db = d1, calls = [CallGetWorkoutByID i], logs = [],
               w = \<lparr>status = Some StatusBadRequest,
                     body = [JsonBody [(''error'',
                               JString ''you must be logged in to update'')]]\<rparr>\<rparr>)"
proof -
  have c1: "filter is_mutation (calls (HandleCreateWorkout wh creq (NewWorld s))) = []"
  proof (cases "Body creq")
    case (Inl e)
    then show ?thesis by (simp add: create_decode_error) (simp add: NewWorld_def)
  next
    case (Inr wk)
    then show ?thesis by (simp add: create_anonymous [OF Inr c]) (simp add: NewWorld_def)
  qed
  have updH: "HandleUpdateWorkoutByID wh ureq (NewWorld s) =
               updateFrom wh ureq (targetID ureq) (snd (readUpdateID ureq (NewWorld s)))"
    by (simp add: HandleUpdateWorkoutByID_def readUpdateID_def targetID_def split: sum.splits)
  have pre: "calls (snd (readUpdateID ureq (NewWorld s))) = []"
    by (simp add: readUpdateID_def world_simps split: sum.splits)
  have gu: "\<forall>u'. GetUser ureq = UserRef u' \<longrightarrow>
      fst (GetWorkoutOwner wh (targetID ureq)
            (snd (GetWorkoutByID wh (targetID ureq)
                    (db (snd (readUpdateID ureq (NewWorld s)))))))
        \<noteq> Inr (User_ID u')"
    using u by auto
  have gd: "\<forall>u'. GetUser dreq = UserRef u' \<longrightarrow>
      fst (GetWorkoutOwner wh (targetID dreq) (db (NewWorld s))) \<noteq> Inr (User_ID u')"
    using d by auto
  have c2: "filter is_mutation (calls (HandleUpdateWorkoutByID wh ureq (NewWorld s))) = []"
    by (simp add: updH updateFrom_guarded [OF gu] pre)
  have c3: "filter is_mutation (calls (HandleDeleteWorkoutByID wh dreq (NewWorld s))) = []"
    by (simp add: delete_guarded [OF gd]) (simp add: NewWorld_def)
  have c4: "\<forall>wk. Body creq = Inr wk \<longrightarrow>
            HandleCreateWorkout wh creq (NewWorld s) =
              \<lparr>db = s, calls = [], logs = [],
               w = \<lparr>status = Some StatusBadRequest,
                     body = [JsonBody [(''error'', JString ''you must be logged in'')]]\<rparr>\<rparr>"
    by (simp add: create_anonymous [OF _ c]) (simp add: NewWorld_def)
  have c5: "\<forall>i. ParseInt (URLParam_id dreq) = Inr i \<longrightarrow>
            HandleDeleteWorkoutByID wh dreq (NewWorld s) =
              \<lparr>db = s, calls = [], logs = [],
               w = \<lparr>status = Some StatusBadRequest,
                     body = [JsonBody [(''error'',
                               JString ''you must be logged in to update'')]]\<rparr>\<rparr>"
    by (simp add: delete_anonymous [OF _ d]) (simp add: NewWorld_def)
  have c6: "\<forall>i wk d1 r. ReadIDParam ureq = Inr i \<longrightarrow>
            GetWorkoutByID wh i s = (Inr (Some wk), d1) \<longrightarrow> Body ureq = Inr r \<longrightarrow>
            HandleUpdateWorkoutByID wh ureq (NewWorld s) =
              \<lparr>db = d1, calls = [CallGetWorkoutByID i], logs = [],
               w = \<lparr>status = Some StatusBadRequest,
                     body = [JsonBody [(''error'',
                               JString ''you must be logged in to update'')]]\<rparr>\<rparr>"
  proof (intro allI impI)
    fix i wk d1 r
    assume i: "ReadIDParam ureq = Inr i"
      and g: "GetWorkoutByID wh i s = (Inr (Some wk), d1)"
      and b: "Body ureq = Inr r"
    have g': "GetWorkoutByID wh i (db (NewWorld s)) = (Inr (Some wk), d1)"
      using g by (simp add: NewWorld_def)
    show "HandleUpdateWorkoutByID wh ureq (NewWorld s) =
              \<lparr>db = d1, calls = [CallGetWorkoutByID i], logs = [],
               w = \<lparr>status = Some StatusBadRequest,
                     body = [JsonBody [(''error'',
                               JString ''you must be logged in to update'')]]\<rparr>\<rparr>"
      by (simp add: update_wellformed [OF i] updateFrom_anonymous [OF g' b u])
         (simp add: NewWorld_def)
  qed
  from c1 c2 c3 c4 c5 c6 show ?thesis by blast
qed

theorem anonymous_rejected_with_400_witness:
  "HandleCreateWorkout MemStore
     \<lparr>URLParam_id = [], GetUser = AnonymousUser, Body = Inr workout6\<rparr> (NewWorld example_db) =
     \<lparr>db = example_db, calls = [], logs = [],
      w = \<lparr>status = Some StatusBadRequest,
            body = [JsonBody [(''error'', JString ''you must be logged in'')]]\<rparr>\<rparr>
   \<and> HandleDeleteWorkoutByID MemStore
       \<lparr>URLParam_id = ''6'', GetUser = NilUser, Body = Inr ()\<rparr> (NewWorld example_db) =
     \<lparr>db = example_db, calls = [], logs = [],
      w = \<lparr>status = Some StatusBadRequest,
            body = [JsonBody [(''error'', JString ''you must be logged in to update'')]]\<rparr>\<rparr>
   \<and> HandleUpdateWorkoutByID MemStore
       \<lparr>URLParam_id = ''6'', GetUser = AnonymousUser, Body = Inr title_only\<rparr>
       (NewWorld example_db) =
     \<lparr>db = example_db, calls = [CallGetWorkoutByID 6], logs = [],
      w = \<lparr>status = Some StatusBadRequest,
            body = [JsonBody [(''error'', JString ''you must be logged in to update'')]]\<rparr>\<rparr>"
proof -
  let ?c = "\<lparr>URLParam_id = [], GetUser = AnonymousUser, Body = Inr workout6\<rparr>"
  let ?d = "\<lparr>URLParam_id = ''6'', GetUser = NilUser, Body = Inr ()\<rparr>"
  let ?u = "\<lparr>URLParam_id = ''6'', GetUser = AnonymousUser, Body = Inr title_only\<rparr>"
  have c: "GetUser ?c = NilUser \<or> GetUser ?c = AnonymousUser" by simp
  have d: "GetUser ?d = NilUser \<or> GetUser ?d = AnonymousUser" by simp
  have u: "GetUser ?u = NilUser \<or> GetUser ?u = AnonymousUser" by simp
  have bc: "Body ?c = Inr workout6" and bu: "Body ?u = Inr title_only" by simp_all
  have p: "ParseInt (URLParam_id ?d) = Inr 6" by (simp add: ParseInt_6)
  have i: "ReadIDParam ?u = Inr 6" by (simp add: ReadIDParam_Inr_iff ParseInt_6)
  have g: "GetWorkoutByID MemStore 6 example_db = (Inr (Some workout6), example_db)"
    by (simp add: mem_simps)
  note inst = anonymous_rejected_with_400 [OF c u d, of MemStore example_db]
  from inst bc p i g bu show ?thesis by blast
qed

theorem anonymous_create_counterexample:
  "status (w (HandleCreateWorkout MemStore
     \<lparr>URLParam_id = [], GetUser = AnonymousUser, Body = Inr workout6\<rparr>
     (NewWorld example_db))) = Some StatusBadRequest
   \<and> status (w (HandleCreateWorkout MemStore
     \<lparr>URLParam_id = [], GetUser = AnonymousUser, Body = Inr workout6\<rparr>
     (NewWorld example_db))) \<noteq> Some StatusUnauthorized"
  by (simp add: create_anonymous [where wk = workout6]) (simp add: NewWorld_def)

text \<open>
  C6 (amended). When the ownership probe \<open>GetWorkoutOwner\<close> finds no row
  (\<open>sql.ErrNoRows\<close>, also wrapped), the delete handler (id parsed, caller authenticated)
  and the update handler (having reached the probe) respond with status 400 and the
  error "workout does not exists", and call no mutating store method. An update
  request whose fetch \<open>GetWorkoutByID\<close> returns nil is answered 404 before the probe.
\<close>

theorem probe_no_row_answers_400:
  fixes ureq :: "updateWorkoutRequest Request" and dreq :: "'b Request"
  assumes nr: "errors_Is e ErrNoRows"
  shows "(\<forall>i u d. ParseInt (URLParam_id dreq) = Inr i \<longrightarrow> GetUser dreq = UserRef u \<longrightarrow>
            GetWorkoutOwner wh i s = (Inl e, d) \<longrightarrow>
            HandleDeleteWorkoutByID wh dreq (NewWorld s) =
              \<lparr>db = d, calls = [CallGetWorkoutOwner i], logs = [],
               w = \<lparr>status = Some StatusBadRequest,
                     body = [JsonBody [(''error'', JString ''workout does not exists'')]]\<rparr>\<rparr>)
       \<and> (\<forall>i wk d1 r u d2. ReadIDParam ureq = Inr i \<longrightarrow>
            GetWorkoutByID wh i s = (Inr (Some wk), d1) \<longrightarrow> Body ureq = Inr r \<longrightarrow>
            GetUser ureq = UserRef u \<longrightarrow> GetWorkoutOwner wh i d1 = (Inl e, d2) \<longrightarrow>
            HandleUpdateWorkoutByID wh ureq (NewWorld s) =
              \<lparr>db = d2, calls = [CallGetWorkoutByID i, CallGetWorkoutOwner i], logs = [],
               w = \<lparr>status = Some StatusBadRequest,
                     body = [JsonBody [(''error'', JString ''workout does not exists'')]]\<rparr>\<rparr>)
       \<and> (\<forall>i d. ReadIDParam ureq = Inr i \<longrightarrow> GetWorkoutByID wh i s = (Inr None, d) \<longrightarrow>
            HandleUpdateWorkoutByID wh ureq (NewWorld s) =
              \<lparr>db = d, calls = [CallGetWorkoutByID i], logs = [],
               w = \<lparr>status = Some StatusNotFound,
                     body = [TextBody ''404 page not found'']\<rparr>\<rparr>)"
proof -
  have c1: "\<forall>i u d. ParseInt (URLParam_id dreq) = Inr i \<longrightarrow> GetUser dreq = UserRef u \<longrightarrow>
            GetWorkoutOwner wh i s = (Inl e, d) \<longrightarrow>
            HandleDeleteWorkoutByID wh dreq (NewWorld s) =
              \<lparr>db = d, calls = [CallGetWorkoutOwner i], logs = [],
               w = \<lparr>status = Some StatusBadRequest,
                     body = [JsonBody [(''error'', JString ''workout does not exists'')]]\<rparr>\<rparr>"
  proof (intro allI impI)
    fix i u d
    assume i: "ParseInt (URLParam_id dreq) = Inr i" and a: "GetUser dreq = UserRef u"
      and o: "GetWorkoutOwner wh i s = (Inl e, d)"
    have o': "GetWorkoutOwner wh i (db (NewWorld s)) = (Inl e, d)"
      using o by (simp add: NewWorld_def)
    show "HandleDeleteWorkoutByID wh dreq (NewWorld s) =
              \<lparr>db = d, calls = [CallGetWorkoutOwner i], logs = [],
               w = \<lparr>status = Some StatusBadRequest,
                     body = [JsonBody [(''error'', JString ''workout does not exists'')]]\<rparr>\<rparr>"
      using nr by (simp add: delete_probe_error [OF i a o']) (simp add: NewWorld_def)
  qed
  have c2: "\<forall>i wk d1 r u d2. ReadIDParam ureq = Inr i \<longrightarrow>
            GetWorkoutByID wh i s = (Inr (Some wk), d1) \<longrightarrow> Body ureq = Inr r \<longrightarrow>
            GetUser ureq = UserRef u \<longrightarrow> GetWorkoutOwner wh i d1 = (Inl e, d2) \<longrightarrow>
            HandleUpdateWorkoutByID wh ureq (NewWorld s) =
              \<lparr>db = d2, calls = [CallGetWorkoutByID i, CallGetWorkoutOwner i], logs = [],
               w = \<lparr>status = Some StatusBadRequest,
                     body = [JsonBody [(''error'', JString ''workout does not exists'')]]\<rparr>\<rparr>"
  proof (intro allI impI)
    fix i wk d1 r u d2
    assume i: "ReadIDParam ureq = Inr i"
      and g: "GetWorkoutByID wh i s = (Inr (Some wk), d1)"
      and b: "Body ureq = Inr r" and a: "GetUser ureq = UserRef u"
      and o: "GetWorkoutOwner wh i d1 = (Inl e, d2)"
    have g': "GetWorkoutByID wh i (db (NewWorld s)) = (Inr (Some wk), d1)"
      using g by (simp add: NewWorld_def)
    show "HandleUpdateWorkoutByID wh ureq (NewWorld s) =
              \<lparr>db = d2, calls = [CallGetWorkoutByID i, CallGetWorkoutOwner i], logs = [],
               w = \<lparr>status = Some StatusBadRequest,
                     body = [JsonBody [(''error'', JString ''workout does not exists'')]]\<rparr>\<rparr>"
      using nr by (simp add: update_wellformed [OF i] updateFrom_probe_error [OF g' b a o])
         (simp add: NewWorld_def)
  qed
  have c3: "\<forall>i d. ReadIDParam ureq = Inr i \<longrightarrow> GetWorkoutByID wh i s = (Inr None, d) \<longrightarrow>
            HandleUpdateWorkoutByID wh ureq (NewWorld s) =
              \<lparr>db = d, calls = [CallGetWorkoutByID i], logs = [],
               w = \<lparr>status = Some StatusNotFound,
                     body = [TextBody ''404 page not found'']\<rparr>\<rparr>"
  proof (intro allI impI)
    fix i d
    assume i: "ReadIDParam ureq = Inr i" and g: "GetWorkoutByID wh i s = (Inr None, d)"
    have g': "GetWorkoutByID wh i (db (NewWorld s)) = (Inr None, d)"
      using g by (simp add: NewWorld_def)
    show "HandleUpdateWorkoutByID wh ureq (NewWorld s) =
              \<lparr>db = d, calls = [CallGetWorkoutByID i], logs = [],
               w = \<lparr>status = Some StatusNotFound,
                     body = [TextBody ''404 page not found'']\<rparr>\<rparr>"
      by (simp add: update_wellformed [OF i] updateFrom_fetch_nil [OF g'])
         (simp add: NewWorld_def)
  qed
  from c1 c2 c3 show ?thesis by blast
qed

theorem probe_no_row_answers_400_witness:
  "errors_Is ErrNoRows ErrNoRows
   \<and> GetWorkoutOwner MemStore 7 example_db = (Inl ErrNoRows, example_db)
   \<and> HandleDeleteWorkoutByID MemStore
       \<lparr>URLParam_id = ''7'', GetUser = UserRef user1, Body = Inr ()\<rparr> (NewWorld example_db) =
     \<lparr>db = example_db, calls = [CallGetWorkoutOwner 7], logs = [],
      w = \<lparr>status = Some StatusBadRequest,
            body = [JsonBody [(''error'', JString ''workout does not exists'')]]\<rparr>\<rparr>
   \<and> HandleUpdateWorkoutByID RacyStore
       \<lparr>URLParam_id = ''6'', GetUser = UserRef user1, Body = Inr title_only\<rparr>
       (NewWorld example_db) =
     \<lparr>db = example_db, calls = [CallGetWorkoutByID 6, CallGetWorkoutOwner 6], logs = [],
      w = \<lparr>status = Some StatusBadRequest,
            body = [JsonBody [(''error'', JString ''workout does not exists'')]]\<rparr>\<rparr>
   \<and> HandleUpdateWorkoutByID MemStore
       \<lparr>URLParam_id = ''7'', GetUser = UserRef user1, Body = Inr title_only\<rparr>
       (NewWorld example_db) =
     \<lparr>db = example_db, calls = [CallGetWorkoutByID 7], logs = [],
      w = \<lparr>status = Some StatusNotFound, body = [TextBody ''404 page not found'']\<rparr>\<rparr>"
proof -
  let ?d = "\<lparr>URLParam_id = ''7'', GetUser = UserRef user1, Body = Inr ()\<rparr>"
  let ?u6 = "\<lparr>URLParam_id = ''6'', GetUser = UserRef user1, Body = Inr title_only\<rparr>"
  let ?u7 = "\<lparr>URLParam_id = ''7'', GetUser = UserRef user1, Body = Inr title_only\<rparr>"
  have nr: "errors_Is ErrNoRows ErrNoRows" by simp
  have p: "ParseInt (URLParam_id ?d) = Inr 7" by (simp add: ParseInt_7)
  have ad: "GetUser ?d = UserRef user1" and au: "GetUser ?u6 = UserRef user1" by simp_all
  have o: "GetWorkoutOwner MemStore 7 example_db = (Inl ErrNoRows, example_db)"
    by (simp add: mem_simps)
  have i6: "ReadIDParam ?u6 = Inr 6" by (simp add: ReadIDParam_Inr_iff ParseInt_6)
  have i7: "ReadIDParam ?u7 = Inr 7" by (simp add: ReadIDParam_Inr_iff ParseInt_7)
  have g6: "GetWorkoutByID RacyStore 6 example_db = (Inr (Some workout6), example_db)"
    by (simp add: RacyStore_def mem_simps)
  have o6: "GetWorkoutOwner RacyStore 6 example_db = (Inl ErrNoRows, example_db)"
    by (simp add: RacyStore_def mem_simps)
  have b6: "Body ?u6 = Inr title_only" by simp
  have g7: "GetWorkoutByID MemStore 7 example_db = (Inr None, example_db)"
    by (simp add: mem_simps)
  from probe_no_row_answers_400 [OF nr, of ?d MemStore example_db ?u7] p ad o
  have x: "HandleDeleteWorkoutByID MemStore ?d (NewWorld example_db) =
     \<lparr>db = example_db, calls = [CallGetWorkoutOwner 7], logs = [],
      w = \<lparr>status = Some StatusBadRequest,
            body = [JsonBody [(''error'', JString ''workout does not exists'')]]\<rparr>\<rparr>"
    by blast
  from probe_no_row_answers_400 [OF nr, of ?d RacyStore example_db ?u6] i6 g6 b6 au o6
  have y: "HandleUpdateWorkoutByID RacyStore ?u6 (NewWorld example_db) =
     \<lparr>db = example_db, calls = [CallGetWorkoutByID 6, CallGetWorkoutOwner 6], logs = [],
      w = \<lparr>status = Some StatusBadRequest,
            body = [JsonBody [(''error'', JString ''workout does not exists'')]]\<rparr>\<rparr>"
    by blast
  from probe_no_row_answers_400 [OF nr, of ?d MemStore example_db ?u7] i7 g7
  have z: "HandleUpdateWorkoutByID MemStore ?u7 (NewWorld example_db) =
     \<lparr>db = example_db, calls = [CallGetWorkoutByID 7], logs = [],
      w = \<lparr>status = Some StatusNotFound, body = [TextBody ''404 page not found'']\<rparr>\<rparr>"
    by blast
  from nr o x y z show ?thesis by blast
qed

theorem delete_absent_workout_counterexample:
  "GetWorkoutOwner MemStore 7 example_db = (Inl ErrNoRows, example_db)
   \<and> status (w (HandleDeleteWorkoutByID MemStore
        \<lparr>URLParam_id = ''7'', GetUser = UserRef user1, Body = Inr ()\<rparr>
        (NewWorld example_db))) = Some StatusBadRequest
   \<and> status (w (HandleDeleteWorkoutByID MemStore
        \<lparr>URLParam_id = ''7'', GetUser = UserRef user1, Body = Inr ()\<rparr>
        (NewWorld example_db))) \<noteq> Some StatusNotFound"
proof -
  let ?d = "\<lparr>URLParam_id = ''7'', GetUser = UserRef user1, Body = Inr ()\<rparr>"
  have p: "ParseInt (URLParam_id ?d) = Inr 7" by (simp add: ParseInt_7)
  have a: "GetUser ?d = UserRef user1" by simp
  have o: "GetWorkoutOwner MemStore 7 (db (NewWorld example_db)) = (Inl ErrNoRows, example_db)"
    by (simp add: mem_simps NewWorld_def)
  have "status (w (HandleDeleteWorkoutByID MemStore ?d (NewWorld example_db)))
          = Some StatusBadRequest"
    by (simp add: delete_probe_error [OF p a o]) (simp add: NewWorld_def)
  moreover have "GetWorkoutOwner MemStore 7 example_db = (Inl ErrNoRows, example_db)"
    by (simp add: mem_simps)
  ultimately show ?thesis by simp
qed

section \<open>Partial updates, ownership at creation, tokens\<close>

lemma applyUpdateRequest_fields:
  "Title (applyUpdateRequest r wk) = (case upd_Title r of None \<Rightarrow> Title wk | Some t \<Rightarrow> t)"
  "Description (applyUpdateRequest r wk) =
     (case upd_Description r of None \<Rightarrow> Description wk | Some x \<Rightarrow> x)"
  "DurationMinutes (applyUpdateRequest r wk) =
     (case upd_DurationMinutes r of None \<Rightarrow> DurationMinutes wk | Some m \<Rightarrow> m)"
  "CaloriesBurned (applyUpdateRequest r wk) =
     (case upd_CaloriesBurned r of None \<Rightarrow> CaloriesBurned wk | Some c \<Rightarrow> c)"
  "Entries (applyUpdateRequest r wk) = (case upd_Entries r of None \<Rightarrow> Entries wk | Some es \<Rightarrow> es)"
  "UserID (applyUpdateRequest r wk) = UserID wk"
  "ID (applyUpdateRequest r wk) = ID wk"
  by (simp_all add: applyUpdateRequest_def Let_def split: option.splits)

text \<open>
  C3. An update request that reaches the store (id parsed, workout fetched, body
  decoded, caller is the owner) passes to \<open>UpdateWorkout\<close> the fetched workout in which
  exactly the fields present in the body are replaced: an absent field keeps its prior
  value, and \<open>entries\<close> present, even as the empty array, replaces the entry collection.
  The owner is kept and the id is the one of the URL. On success the response is 200
  with the workout as the store left it.
\<close>

theorem update_applies_present_fields_only:
  assumes i: "ReadIDParam req = Inr i"
    and g: "GetWorkoutByID wh i s = (Inr (Some wk), d1)"
    and b: "Body req = Inr r"
    and a: "GetUser req = UserRef u"
    and o: "GetWorkoutOwner wh i d1 = (Inr (User_ID u), d2)"
  shows "\<exists>wk'. calls (HandleUpdateWorkoutByID wh req (NewWorld s)) =
                 [CallGetWorkoutByID i, CallGetWorkoutOwner i, CallUpdateWorkout wk']
       \<and> Title wk' = (case upd_Title r of None \<Rightarrow> Title wk | Some t \<Rightarrow> t)
       \<and> Description wk' = (case upd_Description r of None \<Rightarrow> Description wk | Some x \<Rightarrow> x)
       \<and> DurationMinutes wk' =
           (case upd_DurationMinutes r of None \<Rightarrow> DurationMinutes wk | Some m \<Rightarrow> m)
       \<and> CaloriesBurned wk' =
           (case upd_CaloriesBurned r of None \<Rightarrow> CaloriesBurned wk | Some c \<Rightarrow> c)
       \<and> Entries wk' = (case upd_Entries r of None \<Rightarrow> Entries wk | Some es \<Rightarrow> es)
       \<and> UserID wk' = UserID wk \<and> ID wk' = i
       \<and> (\<forall>updated d3. UpdateWorkout wh wk' d2 = ((None, updated), d3) \<longrightarrow>
             db (HandleUpdateWorkoutByID wh req (NewWorld s)) = d3
             \<and> w (HandleUpdateWorkoutByID wh req (NewWorld s)) =
                 \<lparr>status = Some StatusOK,
                  body = [JsonBody [(''workout'', JWorkout (Some updated))]]\<rparr>)"
proof -
  let ?wk' = "(applyUpdateRequest r wk)\<lparr>ID := i\<rparr>"
  have g': "GetWorkoutByID wh i (db (NewWorld s)) = (Inr (Some wk), d1)"
    using g by (simp add: NewWorld_def)
  obtain err updated d3 where up: "UpdateWorkout wh ?wk' d2 = ((err, updated), d3)"
    by (metis surj_pair)
  have c: "calls (HandleUpdateWorkoutByID wh req (NewWorld s)) =
             [CallGetWorkoutByID i, CallGetWorkoutOwner i, CallUpdateWorkout ?wk']"
    by (simp add: update_wellformed [OF i] updateFrom_owner [OF g' b a o up])
       (simp add: NewWorld_def)
  have ok: "\<forall>updated d3. UpdateWorkout wh ?wk' d2 = ((None, updated), d3) \<longrightarrow>
             db (HandleUpdateWorkoutByID wh req (NewWorld s)) = d3
             \<and> w (HandleUpdateWorkoutByID wh req (NewWorld s)) =
                 \<lparr>status = Some StatusOK,
                  body = [JsonBody [(''workout'', JWorkout (Some updated))]]\<rparr>"
  proof (intro allI impI)
    fix updated d3
    assume up': "UpdateWorkout wh ?wk' d2 = ((None, updated), d3)"
    show "db (HandleUpdateWorkoutByID wh req (NewWorld s)) = d3
             \<and> w (HandleUpdateWorkoutByID wh req (NewWorld s)) =
                 \<lparr>status = Some StatusOK,
                  body = [JsonBody [(''workout'', JWorkout (Some updated))]]\<rparr>"
      by (simp add: update_wellformed [OF i] updateFrom_owner [OF g' b a o up'])
         (simp add: NewWorld_def)
  qed
  from c ok show ?thesis
    by (intro exI [of _ ?wk']) (simp add: applyUpdateRequest_fields)
qed

theorem update_applies_present_fields_only_witness:
  "(\<exists>wk'. calls (HandleUpdateWorkoutByID MemStore
              \<lparr>URLParam_id = ''6'', GetUser = UserRef user1, Body = Inr title_only\<rparr>
              (NewWorld example_db)) =
            [CallGetWorkoutByID 6, CallGetWorkoutOwner 6, CallUpdateWorkout wk']
       \<and> Title wk' = ''X'' \<and> Description wk' = ''squats'' \<and> DurationMinutes wk' = 60
       \<and> CaloriesBurned wk' = 500 \<and> Entries wk' = [entry1] \<and> UserID wk' = 1 \<and> ID wk' = 6)
   \<and> (\<exists>wk'. calls (HandleUpdateWorkoutByID MemStore
              \<lparr>URLParam_id = ''6'', GetUser = UserRef user1, Body = Inr empty_entries\<rparr>
              (NewWorld example_db)) =
            [CallGetWorkoutByID 6, CallGetWorkoutOwner 6, CallUpdateWorkout wk']
       \<and> Title wk' = ''Leg day'' \<and> Entries wk' = [])"
proof -
  let ?t = "\<lparr>URLParam_id = ''6'', GetUser = UserRef user1, Body = Inr title_only\<rparr>"
  let ?e = "\<lparr>URLParam_id = ''6'', GetUser = UserRef user1, Body = Inr empty_entries\<rparr>"
  have it: "ReadIDParam ?t = Inr 6" and ie: "ReadIDParam ?e = Inr 6"
    by (simp_all add: ReadIDParam_Inr_iff ParseInt_6)
  have g: "GetWorkoutByID MemStore 6 example_db = (Inr (Some workout6), example_db)"
    by (simp add: mem_simps)
  have bt: "Body ?t = Inr title_only" and be: "Body ?e = Inr empty_entries" by simp_all
  have at: "GetUser ?t = UserRef user1" and ae: "GetUser ?e = UserRef user1" by simp_all
  have o: "GetWorkoutOwner MemStore 6 example_db = (Inr (User_ID user1), example_db)"
    by (simp add: mem_simps)
  from update_applies_present_fields_only [OF it g bt at o]
  have x: "\<exists>wk'. calls (HandleUpdateWorkoutByID MemStore ?t (NewWorld example_db)) =
            [CallGetWorkoutByID 6, CallGetWorkoutOwner 6, CallUpdateWorkout wk']
       \<and> Title wk' = ''X'' \<and> Description wk' = ''squats'' \<and> DurationMinutes wk' = 60
       \<and> CaloriesBurned wk' = 500 \<and> Entries wk' = [entry1] \<and> UserID wk' = 1 \<and> ID wk' = 6"
    by (simp add: title_only_def workout6_def) blast
  from update_applies_present_fields_only [OF ie g be ae o]
  have y: "\<exists>wk'. calls (HandleUpdateWorkoutByID MemStore ?e (NewWorld example_db)) =
            [CallGetWorkoutByID 6, CallGetWorkoutOwner 6, CallUpdateWorkout wk']
       \<and> Title wk' = ''Leg day'' \<and> Entries wk' = []"
    by (simp add: empty_entries_def workout6_def) blast
  from x y show ?thesis by blast
qed

lemma updateFrom_update_calls:
  assumes "CallUpdateWorkout wk' \<in> set (calls (updateFrom wh req i \<sigma>))"
    and "CallUpdateWorkout wk' \<notin> set (calls \<sigma>)"
  shows "\<exists>wk d. GetWorkoutByID wh i (db \<sigma>) = (Inr (Some wk), d) \<and> UserID wk' = UserID wk"
  using assms
  by (auto simp: updateFrom_def world_simps Let_def applyUpdateRequest_fields
           split: sum.splits option.splits prod.splits if_splits)

text \<open>
  C4. A create request that succeeds (status 201) comes from an authenticated caller
  and makes exactly one store call, \<open>CreateWorkout\<close>, on the decoded workout with its
  owner overwritten by the caller's id, whatever owner the body carried; the response
  holds what the store returned. The update handler never changes the owner: the
  workout it passes to \<open>UpdateWorkout\<close> has the owner of the workout it fetched.
\<close>

theorem create_sets_owner_to_caller:
  fixes ureq :: "updateWorkoutRequest Request"
  shows "(status (w (HandleCreateWorkout wh req (NewWorld s))) = Some StatusCreated \<longrightarrow>
          (\<exists>u wk created d.
            GetUser req = UserRef u \<and> Body req = Inr wk
            \<and> UserID (wk\<lparr>UserID := User_ID u\<rparr>) = User_ID u
            \<and> CreateWorkout wh (wk\<lparr>UserID := User_ID u\<rparr>) s = (Inr created, d)
            \<and> HandleCreateWorkout wh req (NewWorld s) =
                \<lparr>db = d, calls = [CallCreateWorkout (wk\<lparr>UserID := User_ID u\<rparr>)], logs = [],
                 w = \<lparr>status = Some StatusCreated,
                       body = [JsonBody [(''workout'', JWorkout created)]]\<rparr>\<rparr>))
       \<and> (\<forall>wk'. CallUpdateWorkout wk' \<in> set (calls (HandleUpdateWorkoutByID wh ureq (NewWorld s)))
             \<longrightarrow> (\<exists>wk d. GetWorkoutByID wh (targetID ureq) s = (Inr (Some wk), d)
                        \<and> UserID wk' = UserID wk))"
proof -
  have c1: "\<exists>u wk created d.
            GetUser req = UserRef u \<and> Body req = Inr wk
            \<and> UserID (wk\<lparr>UserID := User_ID u\<rparr>) = User_ID u
            \<and> CreateWorkout wh (wk\<lparr>UserID := User_ID u\<rparr>) s = (Inr created, d)
            \<and> HandleCreateWorkout wh req (NewWorld s) =
                \<lparr>db = d, calls = [CallCreateWorkout (wk\<lparr>UserID := User_ID u\<rparr>)], logs = [],
                 w = \<lparr>status = Some StatusCreated,
                       body = [JsonBody [(''workout'', JWorkout created)]]\<rparr>\<rparr>"
    if ok: "status (w (HandleCreateWorkout wh req (NewWorld s))) = Some StatusCreated"
  proof (cases "Body req")
    case (Inl e)
    with ok show ?thesis by (simp add: create_decode_error) (simp add: NewWorld_def)
  next
    case (Inr wk)
    show ?thesis
    proof (cases "GetUser req")
      case NilUser
      with ok Inr show ?thesis
        by (simp add: create_anonymous [OF Inr]) (simp add: NewWorld_def)
    next
      case AnonymousUser
      with ok Inr show ?thesis
        by (simp add: create_anonymous [OF Inr]) (simp add: NewWorld_def)
    next
      case (UserRef u)
      obtain r d where cr: "CreateWorkout wh (wk\<lparr>UserID := User_ID u\<rparr>) s = (r, d)"
        by (metis surj_pair)
      then have cr': "CreateWorkout wh (wk\<lparr>UserID := User_ID u\<rparr>) (db (NewWorld s)) = (r, d)"
        by (simp add: NewWorld_def)
      show ?thesis
      proof (cases r)
        case (Inl e)
        with ok show ?thesis
          by (simp add: create_authenticated [OF Inr UserRef cr']) (simp add: NewWorld_def)
      next
        case (Inr created)
        have "HandleCreateWorkout wh req (NewWorld s) =
                \<lparr>db = d, calls = [CallCreateWorkout (wk\<lparr>UserID := User_ID u\<rparr>)], logs = [],
                 w = \<lparr>status = Some StatusCreated,
                       body = [JsonBody [(''workout'', JWorkout created)]]\<rparr>\<rparr>"
          using Inr
          by (simp add: create_authenticated [OF \<open>Body req = Inr wk\<close> UserRef cr'])
             (simp add: NewWorld_def)
        with UserRef \<open>Body req = Inr wk\<close> cr Inr show ?thesis by auto
      qed
    qed
  qed
  have updH: "HandleUpdateWorkoutByID wh ureq (NewWorld s) =
               updateFrom wh ureq (targetID ureq) (snd (readUpdateID ureq (NewWorld s)))"
    by (simp add: HandleUpdateWorkoutByID_def readUpdateID_def targetID_def split: sum.splits)
  have pre: "calls (snd (readUpdateID ureq (NewWorld s))) = []
             \<and> db (snd (readUpdateID ureq (NewWorld s))) = s"
    by (simp add: readUpdateID_def world_simps split: sum.splits)
  have c2: "\<forall>wk'. CallUpdateWorkout wk' \<in> set (calls (HandleUpdateWorkoutByID wh ureq (NewWorld s)))
             \<longrightarrow> (\<exists>wk d. GetWorkoutByID wh (targetID ureq) s = (Inr (Some wk), d)
                        \<and> UserID wk' = UserID wk)"
  proof (intro allI impI)
    fix wk'
    assume "CallUpdateWorkout wk' \<in> set (calls (HandleUpdateWorkoutByID wh ureq (NewWorld s)))"
    then have m: "CallUpdateWorkout wk' \<in> set (calls (updateFrom wh ureq (targetID ureq)
                      (snd (readUpdateID ureq (NewWorld s)))))"
      by (simp add: updH)
    have n: "CallUpdateWorkout wk' \<notin> set (calls (snd (readUpdateID ureq (NewWorld s))))"
      by (simp add: pre)
    from updateFrom_update_calls [OF m n]
    show "\<exists>wk d. GetWorkoutByID wh (targetID ureq) s = (Inr (Some wk), d)
                        \<and> UserID wk' = UserID wk"
      by (simp add: pre)
  qed
  from c1 c2 show ?thesis by blast
qed

lemma create_example:
  "HandleCreateWorkout MemStore
     \<lparr>URLParam_id = [], GetUser = UserRef user1, Body = Inr workout5\<rparr> (NewWorld example_db) =
   \<lparr>db = \<lparr>rows = [workout5, workout6, workout5\<lparr>ID := 7, UserID := 1\<rparr>], next_id = 8\<rparr>,
    calls = [CallCreateWorkout (workout5\<lparr>UserID := 1\<rparr>)], logs = [],
    w = \<lparr>status = Some StatusCreated,
          body = [JsonBody [(''workout'', JWorkout (Some (workout5\<lparr>ID := 7, UserID := 1\<rparr>)))]]\<rparr>\<rparr>"
proof -
  let ?c = "\<lparr>URLParam_id = [], GetUser = UserRef user1, Body = Inr workout5\<rparr>"
  have b: "Body ?c = Inr workout5" and a: "GetUser ?c = UserRef user1" by simp_all
  have cr: "CreateWorkout MemStore (workout5\<lparr>UserID := User_ID user1\<rparr>) (db (NewWorld example_db))
            = (Inr (Some (workout5\<lparr>ID := 7, UserID := 1\<rparr>)),
               \<lparr>rows = [workout5, workout6, workout5\<lparr>ID := 7, UserID := 1\<rparr>], next_id = 8\<rparr>)"
    by (simp add: mem_simps NewWorld_def Let_def)
  show ?thesis
    by (simp add: create_authenticated [OF b a cr]) (simp add: NewWorld_def user1_def)
qed

theorem create_sets_owner_to_caller_witness:
  "status (w (HandleCreateWorkout MemStore
      \<lparr>URLParam_id = [], GetUser = UserRef user1, Body = Inr workout5\<rparr>
      (NewWorld example_db))) = Some StatusCreated
   \<and> UserID workout5 = 2
   \<and> (\<exists>u wk created d.
        GetUser \<lparr>URLParam_id = [], GetUser = UserRef user1, Body = Inr workout5\<rparr> = UserRef u
        \<and> Body \<lparr>URLParam_id = [], GetUser = UserRef user1, Body = Inr workout5\<rparr> = Inr wk
        \<and> UserID (wk\<lparr>UserID := User_ID u\<rparr>) = User_ID u
        \<and> CreateWorkout MemStore (wk\<lparr>UserID := User_ID u\<rparr>) example_db = (Inr created, d)
        \<and> HandleCreateWorkout MemStore
            \<lparr>URLParam_id = [], GetUser = UserRef user1, Body = Inr workout5\<rparr>
            (NewWorld example_db) =
            \<lparr>db = d, calls = [CallCreateWorkout (wk\<lparr>UserID := User_ID u\<rparr>)], logs = [],
             w = \<lparr>status = Some StatusCreated,
                   body = [JsonBody [(''workout'', JWorkout created)]]\<rparr>\<rparr>)"
proof -
  let ?c = "\<lparr>URLParam_id = [], GetUser = UserRef user1, Body = Inr workout5\<rparr>"
  have ok: "status (w (HandleCreateWorkout MemStore ?c (NewWorld example_db)))
              = Some StatusCreated"
    by (simp add: create_example)
  have two: "UserID workout5 = 2" by (simp add: workout5_def)
  from create_sets_owner_to_caller [of MemStore ?c example_db] ok two show ?thesis by blast
qed

text \<open>
  C5 (the code departs from it). The claim holds for an update request whose id is
  well formed, but not for every update request: after a malformed id the handler has
  committed status 400 and goes on to the fetch, so a store error from
  \<open>GetWorkoutByID\<close> ends in status 400 with the "Internal server error" body appended,
  not in status 500, and a nil result ends in status 400 with the text of
  \<open>http.NotFound\<close> appended, not in status 404.
\<close>

theorem update_malformed_id_store_error_is_400:
  "GetWorkoutByID FailingStore 0 example_db = (Inl (ErrOther ''connection refused''), example_db)
   \<and> HandleUpdateWorkoutByID FailingStore
       \<lparr>URLParam_id = ''abc'', GetUser = UserRef user1, Body = Inr title_only\<rparr>
       (NewWorld example_db) =
     \<lparr>db = example_db, calls = [CallGetWorkoutByID 0],
      logs = [(''Error : readIdParam : %v '', ErrOther ''Invalid id parameter type''),
              (''Error : getWorkoutByID : %v '', ErrOther ''connection refused'')],
      w = \<lparr>status = Some StatusBadRequest,
            body = [JsonBody [(''error'', JString ''Invalid workout update id'')],
                    JsonBody [(''error'', JString ''Internal server error'')]]\<rparr>\<rparr>
   \<and> status (w (HandleUpdateWorkoutByID FailingStore
       \<lparr>URLParam_id = ''abc'', GetUser = UserRef user1, Body = Inr title_only\<rparr>
       (NewWorld example_db))) \<noteq> Some StatusInternalServerError
   \<and> GetWorkoutByID MemStore 0 example_db = (Inr None, example_db)
   \<and> status (w (HandleUpdateWorkoutByID MemStore
       \<lparr>URLParam_id = ''abc'', GetUser = UserRef user1, Body = Inr title_only\<rparr>
       (NewWorld example_db))) = Some StatusBadRequest
   \<and> status (w (HandleUpdateWorkoutByID MemStore
       \<lparr>URLParam_id = ''abc'', GetUser = UserRef user1, Body = Inr title_only\<rparr>
       (NewWorld example_db))) \<noteq> Some StatusNotFound"
proof -
  let ?req = "\<lparr>URLParam_id = ''abc'', GetUser = UserRef user1, Body = Inr title_only\<rparr>"
  have a: "ReadIDParam ?req = Inl (ErrOther ''Invalid id parameter type'')"
    by (simp add: ReadIDParam_def ParseInt_abc)
  have ge: "GetWorkoutByID FailingStore 0 example_db
              = (Inl (ErrOther ''connection refused''), example_db)"
    by (simp add: FailingStore_def)
  have gn: "GetWorkoutByID MemStore 0 example_db = (Inr None, example_db)"
    by (simp add: mem_simps)
  have x: "HandleUpdateWorkoutByID FailingStore ?req (NewWorld example_db) =
     \<lparr>db = example_db, calls = [CallGetWorkoutByID 0],
      logs = [(''Error : readIdParam : %v '', ErrOther ''Invalid id parameter type''),
              (''Error : getWorkoutByID : %v '', ErrOther ''connection refused'')],
      w = \<lparr>status = Some StatusBadRequest,
            body = [JsonBody [(''error'', JString ''Invalid workout update id'')],
                    JsonBody [(''error'', JString ''Internal server error'')]]\<rparr>\<rparr>"
    by (simp add: update_malformed [OF a] updateFrom_fetch_error [where d = example_db] ge
          world_simps Write_def WriteHeader_def WriteJson_def NewResponseWriter_def)
  have y: "status (w (HandleUpdateWorkoutByID MemStore ?req (NewWorld example_db)))
             = Some StatusBadRequest"
    by (simp add: update_malformed [OF a] updateFrom_status_committed world_simps)
  from ge gn x y show ?thesis by simp
qed

text \<open>
  C8. A token issued for an existing user with a lifetime that is not negative
  validates, at the instant of issue, with the returned plaintext and the issuing
  scope, to that user.
\<close>

theorem issue_validate_roundtrip:
  assumes "0 \<le> ttl" and "users st (User_ID u) = Some u"
    and "IssueToken h secret now (User_ID u) ttl scope st = ((plaintext, record), st')"
  shows "ValidateToken h now plaintext scope st' = Inr u"
  using assms by (auto simp: IssueToken_def ValidateToken_def Let_def)

theorem issue_validate_roundtrip_witness:
  "(0::int) \<le> 86400
   \<and> users \<lparr>tokens = Map.empty, users = [42 \<mapsto> user42]\<rparr> (User_ID user42) = Some user42
   \<and> ValidateToken rev 1000 ''s3cr3t'' ''authentication''
       (snd (IssueToken rev ''s3cr3t'' 1000 (User_ID user42) 86400 ''authentication''
               \<lparr>tokens = Map.empty, users = [42 \<mapsto> user42]\<rparr>)) = Inr user42"
proof -
  let ?st = "\<lparr>tokens = Map.empty, users = [42 \<mapsto> user42]\<rparr>"
  have t: "(0::int) \<le> 86400" by simp
  have us: "users ?st (User_ID user42) = Some user42" by (simp add: user42_def)
  have iss: "IssueToken rev ''s3cr3t'' 1000 (User_ID user42) 86400 ''authentication'' ?st =
          ((''s3cr3t'', snd (fst (IssueToken rev ''s3cr3t'' 1000 (User_ID user42) 86400
                                    ''authentication'' ?st))),
           snd (IssueToken rev ''s3cr3t'' 1000 (User_ID user42) 86400 ''authentication'' ?st))"
    by (simp add: IssueToken_def Let_def)
  from t us issue_validate_roundtrip [OF t us iss] show ?thesis by blast
qed

end
